theory Spec2Isabelle
  imports Main "HOL-Library.Char_ord" "HOL-Library.List_Lexorder" "HOL-Library.Sublist"
begin

section \<open>Data model\<close>

text \<open>
  The namespace module of RIDE (\<^verbatim>\<open>src/robotide/namespace/namespace.py\<close>) is embedded
  function by function. Python values that variables can hold are the datatype
  \<open>pyvalue\<close>. Two exceptions occur: Robot's \<^verbatim>\<open>DataError\<close>, which the module catches
  wherever a collaborator may raise it (a collaborator that raises it returns \<open>None\<close>
  here), and the \<^verbatim>\<open>AttributeError\<close> of \<^verbatim>\<open>os.path\<close> on a value that is not text, which
  nothing in the module catches.
\<close>

datatype pyvalue = VStr string | VBool bool | VNone | VList "pyvalue list"

datatype py_exception = AttributeError

text \<open>One row of a variable table: \<^verbatim>\<open>variable.name\<close> and \<^verbatim>\<open>variable.value\<close> (the cells).\<close>

record variable =
  var_name :: string
  var_value :: "string list"

record variable_table =
  vt_variables :: "variable list"
  vt_source :: string

text \<open>An import setting; \<^verbatim>\<open>isinstance(imp, Library)\<close> and the like read \<open>imp_kind\<close>.\<close>

datatype import_kind = Library | Resource | Variables

record import =
  imp_kind :: import_kind
  imp_name :: string
  imp_args :: "string list"
  imp_directory :: string

text \<open>A parsed user keyword, as found in \<^verbatim>\<open>datafile.keywords\<close>.\<close>

record user_keyword =
  uk_name :: string
  uk_source :: string

text \<open>
  The fields of a parsed data file that the module reads. Robot's \<^verbatim>\<open>ResourceFile\<close> has
  these and an always empty \<^verbatim>\<open>children\<close> list; a suite file or directory is a
  \<open>datafile\<close>, which adds its children.
\<close>

record tdata =
  df_keywords :: "user_keyword list"
  df_imports :: "import list"
  df_variable_table :: variable_table
  df_source :: string
  df_directory :: string
  df_name :: string

datatype datafile = DataFile (df_data: tdata) (df_children: "datafile list")

datatype kw_origin = SuiteUserKeyword | ResourceUserKeyword | LibraryKeyword

record kwinfo =
  kw_name :: string
  kw_longname :: string
  kw_source :: string
  kw_origin :: kw_origin

text \<open>
  Modelled from the spec: \<^verbatim>\<open>robotide.spec.iteminfo\<close> (the classes
  \<^verbatim>\<open>TestCaseUserKeywordInfo\<close> and \<^verbatim>\<open>ResourceseUserKeywordInfo\<close>) is not among the sources.
  Both wrap a parsed user keyword and keep its name; the long name is the name itself for a
  keyword of the suite and the name prefixed with its source for a keyword of a resource.
\<close>

definition TestCaseUserKeywordInfo :: "user_keyword \<Rightarrow> kwinfo" where
  "TestCaseUserKeywordInfo kw =
     \<lparr>kw_name = uk_name kw, kw_longname = uk_name kw, kw_source = uk_source kw,
      kw_origin = SuiteUserKeyword\<rparr>"

definition ResourceseUserKeywordInfo :: "user_keyword \<Rightarrow> kwinfo" where
  "ResourceseUserKeywordInfo kw =
     \<lparr>kw_name = uk_name kw, kw_longname = uk_source kw @ ''.'' @ uk_name kw,
      kw_source = uk_source kw, kw_origin = ResourceUserKeyword\<rparr>"

text \<open>
  Modelled from the spec: the equality of keyword infos (\<^verbatim>\<open>ItemInfo.__eq__\<close>, not among the
  sources), which \<^verbatim>\<open>k not in result_in_order\<close> uses: "equality is by resolved name identity".
\<close>

definition kwinfo_eq :: "kwinfo \<Rightarrow> kwinfo \<Rightarrow> bool" where
  "kwinfo_eq a b = (kw_name a = kw_name b)"

section \<open>External collaborators\<close>

text \<open>
  Everything the module calls outside the repository, or in modules of the repository that
  are collaborators of the core: Robot Framework's variable store and normalisation, the
  parser, \<^verbatim>\<open>os.path\<close>, the library cache and the python-path search. A failing parse
  (\<^verbatim>\<open>ResourceFile(path)\<close> raising) is \<open>None\<close>, and so is a \<^verbatim>\<open>DataError\<close> of the
  variable store or of the variable file loader.
\<close>

record ext =
  normalize :: "string \<Rightarrow> string"
  var_normalize :: "string \<Rightarrow> string"
  is_var :: "string \<Rightarrow> bool"
  has_key :: "(string \<rightharpoonup> pyvalue) \<Rightarrow> string \<Rightarrow> bool"
  replace_scalar :: "(string \<rightharpoonup> pyvalue) \<Rightarrow> string \<Rightarrow> pyvalue option"
  replace_string :: "(string \<rightharpoonup> pyvalue) \<Rightarrow> string \<Rightarrow> string"
  get_var_table_name_and_value ::
    "(string \<rightharpoonup> pyvalue) \<Rightarrow> string \<Rightarrow> string list \<Rightarrow> (string \<times> pyvalue) option"
  load_variable_file :: "string \<Rightarrow> pyvalue list \<Rightarrow> (string \<times> pyvalue) list option"
  parse_resource :: "string \<Rightarrow> tdata option"
  find_from_pythonpath :: "string \<Rightarrow> string option"
  path_join :: "string \<Rightarrow> string \<Rightarrow> string"
  normpath :: "string \<Rightarrow> string"
  get_library_keywords :: "pyvalue \<Rightarrow> pyvalue list \<Rightarrow> kwinfo list"
  get_default_keywords :: "kwinfo list"
  global_variables :: "(string \<times> pyvalue) list"

section \<open>The variable stash\<close>

text \<open>
  \<^verbatim>\<open>_VariableStash\<close>: \<open>st_vars\<close> is Robot's \<^verbatim>\<open>Variables\<close> store, a dictionary keyed by
  normalised names; \<open>st_sources\<close> is the plain dictionary \<^verbatim>\<open>_sources\<close>, keyed by the
  names as written. The store's own methods (\<^verbatim>\<open>has_key\<close>, \<^verbatim>\<open>replace_scalar\<close>,
  \<^verbatim>\<open>replace_string\<close>, \<^verbatim>\<open>_get_var_table_name_and_value\<close>) are Robot's and are taken from
  \<open>ext\<close>.
\<close>

record stash =
  st_vars :: "string \<rightharpoonup> pyvalue"
  st_sources :: "string \<rightharpoonup> string"

definition stash_set :: "ext \<Rightarrow> string \<Rightarrow> pyvalue \<Rightarrow> string \<Rightarrow> stash \<Rightarrow> stash" where
  "stash_set E name val src s =
     s\<lparr>st_vars := (st_vars s)(var_normalize E name \<mapsto> val),
       st_sources := (st_sources s)(name \<mapsto> src)\<rparr>"

fun stash_set_all :: "ext \<Rightarrow> string \<Rightarrow> (string \<times> pyvalue) list \<Rightarrow> stash \<Rightarrow> stash" where
  "stash_set_all E src [] s = s"
| "stash_set_all E src ((name, val) # rest) s =
     stash_set_all E src rest (stash_set E name val src s)"

definition new_stash :: "ext \<Rightarrow> stash" where
  "new_stash E =
     stash_set_all E ''Global'' (global_variables E)
       \<lparr>st_vars = Map.empty, st_sources = Map.empty\<rparr>"

definition replace_variables :: "ext \<Rightarrow> stash \<Rightarrow> string \<Rightarrow> pyvalue" where
  "replace_variables E s text =
     (case replace_scalar E (st_vars s) text of
        Some v \<Rightarrow> v
      | None \<Rightarrow> VStr (replace_string E (st_vars s) text))"

text \<open>
  One iteration of the loop of \<^verbatim>\<open>set_from_variable_table\<close>: the \<^verbatim>\<open>try\<close> branch binds the
  name when \<^verbatim>\<open>has_key\<close> is false; the \<^verbatim>\<open>except DataError\<close> branch binds the name as
  written to the empty string when it \<^verbatim>\<open>is_var\<close>.
\<close>

definition set_from_variable :: "ext \<Rightarrow> string \<Rightarrow> variable \<Rightarrow> stash \<Rightarrow> stash" where
  "set_from_variable E src v s =
     (case get_var_table_name_and_value E (st_vars s) (var_name v) (var_value v) of
        Some (name, val) \<Rightarrow>
          if \<not> has_key E (st_vars s) name then stash_set E name val src s else s
      | None \<Rightarrow>
          if is_var E (var_name v) then stash_set E (var_name v) (VStr []) src s else s)"

fun set_from_variables :: "ext \<Rightarrow> string \<Rightarrow> variable list \<Rightarrow> stash \<Rightarrow> stash" where
  "set_from_variables E src [] s = s"
| "set_from_variables E src (v # vs) s =
     set_from_variables E src vs (set_from_variable E src v s)"

definition set_from_variable_table :: "ext \<Rightarrow> variable_table \<Rightarrow> stash \<Rightarrow> stash" where
  "set_from_variable_table E table s =
     set_from_variables E (vt_source table) (vt_variables table) s"

text \<open>
  \<^verbatim>\<open>set_from_file\<close>: the loader's \<^verbatim>\<open>DataError\<close> passes through to the caller; otherwise
  every loaded pair is \<^verbatim>\<open>set\<close>.
\<close>

definition set_from_file ::
  "ext \<Rightarrow> string \<Rightarrow> pyvalue list \<Rightarrow> stash \<Rightarrow> stash option" where
  "set_from_file E varfile_path args s =
     (case load_variable_file E varfile_path args of
        None \<Rightarrow> None
      | Some items \<Rightarrow> Some (stash_set_all E varfile_path items s))"

section \<open>The traversal context\<close>

record retriever_context =
  ctx_vars :: stash
  ctx_parsed :: "string set"

definition new_context :: "ext \<Rightarrow> retriever_context" where
  "new_context E = \<lparr>ctx_vars = new_stash E, ctx_parsed = {}\<rparr>"

definition allow_going_through_resources_again :: "retriever_context \<Rightarrow> retriever_context" where
  "allow_going_through_resources_again ctx = ctx\<lparr>ctx_parsed := {}\<rparr>"

section \<open>The resource cache\<close>

text \<open>
  \<^verbatim>\<open>ResourceCache\<close>: \<open>rc_cache\<close> maps a normalised path to the parsed resource or to the
  negative entry \<open>None\<close>; \<open>rc_python_path_cache\<close> memoises the python-path search.
  \<open>rc_parse_log\<close> records the effect of calling the parser: every path handed to
  \<^verbatim>\<open>ResourceFile(...)\<close>, in order.

  A parsed resource object is returned together with the key of the cache slot that holds
  it. The key stands for the object's identity: a slot is filled once, with a fresh object,
  and \<^verbatim>\<open>res in ctx.parsed\<close> compares identities.
\<close>

record resource_cache =
  rc_cache :: "string \<rightharpoonup> tdata option"
  rc_python_path_cache :: "string \<rightharpoonup> string option"
  rc_parse_log :: "string list"

type_synonym resource = "string \<times> tdata"

definition new_resource_cache :: resource_cache where
  "new_resource_cache =
     \<lparr>rc_cache = Map.empty, rc_python_path_cache = Map.empty, rc_parse_log = []\<rparr>"

definition get_resource_by_path ::
  "ext \<Rightarrow> string \<Rightarrow> resource_cache \<Rightarrow> resource option \<times> resource_cache" where
  "get_resource_by_path E path c =
     (let normalized = normpath E path in
      case rc_cache c normalized of
        None \<Rightarrow>
          (case parse_resource E path of
             Some r \<Rightarrow>
               (Some (normalized, r),
                c\<lparr>rc_cache := (rc_cache c)(normalized \<mapsto> Some r),
                  rc_parse_log := rc_parse_log c @ [path]\<rparr>)
           | None \<Rightarrow>
               (None,
                c\<lparr>rc_cache := (rc_cache c)(normalized \<mapsto> None),
                  rc_parse_log := rc_parse_log c @ [path]\<rparr>))
      | Some entry \<Rightarrow> (map_option (Pair normalized) entry, c))"

definition get_python_path ::
  "ext \<Rightarrow> string \<Rightarrow> resource_cache \<Rightarrow> string option \<times> resource_cache" where
  "get_python_path E name c =
     (case rc_python_path_cache c name of
        Some p \<Rightarrow> (p, c)
      | None \<Rightarrow>
          (find_from_pythonpath E name,
           c\<lparr>rc_python_path_cache :=
               (rc_python_path_cache c)(name \<mapsto> find_from_pythonpath E name)\<rparr>))"

text \<open>The path that \<^verbatim>\<open>get_resource\<close> tries first.\<close>

definition direct_path :: "ext \<Rightarrow> string \<Rightarrow> string \<Rightarrow> string" where
  "direct_path E d n = (if d \<noteq> [] then path_join E d n else n)"

text \<open>\<^verbatim>\<open>get_resource\<close> on a name that is text; an empty directory or path is falsy.\<close>

definition get_resource ::
  "ext \<Rightarrow> string \<Rightarrow> string \<Rightarrow> resource_cache \<Rightarrow> resource option \<times> resource_cache" where
  "get_resource E directory name c =
     (let path = (if directory \<noteq> [] then path_join E directory name else name);
          (res, c1) = get_resource_by_path E path c
      in if res \<noteq> None then (res, c1)
         else (case get_python_path E name c1 of
                 (Some p, c2) \<Rightarrow>
                   if p \<noteq> [] then get_resource_by_path E p c2 else (None, c2)
               | (None, c2) \<Rightarrow> (None, c2)))"

text \<open>
  The callers pass the result of \<^verbatim>\<open>replace_variables\<close>, which may be any value:
  \<^verbatim>\<open>os.path.join\<close> and \<^verbatim>\<open>os.path.normpath\<close> raise on a value that is not text, before the
  cache is touched.
\<close>

definition get_resource_value ::
  "ext \<Rightarrow> string \<Rightarrow> pyvalue \<Rightarrow> resource_cache
     \<Rightarrow> py_exception + (resource option \<times> resource_cache)" where
  "get_resource_value E directory v c =
     (case v of VStr name \<Rightarrow> Inr (get_resource E directory name c) | _ \<Rightarrow> Inl AttributeError)"

section \<open>The datafile retriever\<close>

definition collect_import_of_type :: "tdata \<Rightarrow> import_kind \<Rightarrow> import list" where
  "collect_import_of_type d k = filter (\<lambda>imp. imp_kind imp = k) (df_imports d)"

definition get_datafile_keywords :: "tdata \<Rightarrow> kwinfo list" where
  "get_datafile_keywords d = map TestCaseUserKeywordInfo (df_keywords d)"

definition lib_kw_getter :: "ext \<Rightarrow> import \<Rightarrow> retriever_context \<Rightarrow> kwinfo list" where
  "lib_kw_getter E imp ctx =
     get_library_keywords E (replace_variables E (ctx_vars ctx) (imp_name imp))
       (map (replace_variables E (ctx_vars ctx)) (imp_args imp))"

definition get_imported_library_keywords ::
  "ext \<Rightarrow> tdata \<Rightarrow> retriever_context \<Rightarrow> kwinfo list" where
  "get_imported_library_keywords E d ctx =
     concat (map (\<lambda>imp. lib_kw_getter E imp ctx) (collect_import_of_type d Library))"

text \<open>
  The traversals recurse through resource imports. The first argument is fuel: the number
  of nested resource visits that are still allowed; \<open>None\<close> means that the fuel ran out,
  \<open>Some (Inl e)\<close> that the exception \<open>e\<close> was raised, \<open>Some (Inr x)\<close> that \<open>x\<close> was
  returned. The cache and the context are passed through every call.
\<close>

type_synonym 'a outcome = "(py_exception + 'a \<times> resource_cache \<times> retriever_context) option"

text \<open>
  \<^verbatim>\<open>_res_kw_recursive_getter\<close>, and the loop that calls it for each import of a list (the
  \<^verbatim>\<open>for child in ...\<close> loop of the getter and the loop of \<^verbatim>\<open>_collect_kws_from_imports\<close>).
\<close>

fun res_kw_recursive_getter ::
      "nat \<Rightarrow> ext \<Rightarrow> import \<Rightarrow> resource_cache \<Rightarrow> retriever_context \<Rightarrow> kwinfo list outcome"
  and res_kw_each ::
      "nat \<Rightarrow> ext \<Rightarrow> import list \<Rightarrow> resource_cache \<Rightarrow> retriever_context \<Rightarrow> kwinfo list outcome"
where
  "res_kw_recursive_getter 0 E imp c ctx = None"
| "res_kw_recursive_getter (Suc n) E imp c ctx =
     (case get_resource_value E (imp_directory imp)
             (replace_variables E (ctx_vars ctx) (imp_name imp)) c of
        Inl e \<Rightarrow> Some (Inl e)
      | Inr (None, c1) \<Rightarrow> Some (Inr ([], c1, ctx))
      | Inr (Some res, c1) \<Rightarrow>
          if fst res \<in> ctx_parsed ctx then Some (Inr ([], c1, ctx))
          else
            (let ctx1 = ctx\<lparr>ctx_parsed := insert (fst res) (ctx_parsed ctx)\<rparr>;
                 ctx2 = ctx1\<lparr>ctx_vars :=
                          set_from_variable_table E (df_variable_table (snd res)) (ctx_vars ctx1)\<rparr>
             in case res_kw_each n E (collect_import_of_type (snd res) Resource) c1 ctx2 of
                  None \<Rightarrow> None
                | Some (Inl e) \<Rightarrow> Some (Inl e)
                | Some (Inr (kws, c2, ctx3)) \<Rightarrow>
                    Some (Inr (map ResourceseUserKeywordInfo (df_keywords (snd res))
                                 @ (kws @ get_imported_library_keywords E (snd res) ctx3),
                               c2, ctx3))))"
| "res_kw_each n E [] c ctx = Some (Inr ([], c, ctx))"
| "res_kw_each n E (imp # imps) c ctx =
     (case res_kw_recursive_getter n E imp c ctx of
        None \<Rightarrow> None
      | Some (Inl e) \<Rightarrow> Some (Inl e)
      | Some (Inr (kws, c1, ctx1)) \<Rightarrow>
          (case res_kw_each n E imps c1 ctx1 of
             None \<Rightarrow> None
           | Some (Inl e) \<Rightarrow> Some (Inl e)
           | Some (Inr (kws', c2, ctx2)) \<Rightarrow> Some (Inr (kws @ kws', c2, ctx2))))"

definition get_imported_resource_keywords ::
  "nat \<Rightarrow> ext \<Rightarrow> tdata \<Rightarrow> resource_cache \<Rightarrow> retriever_context \<Rightarrow> kwinfo list outcome" where
  "get_imported_resource_keywords n E d c ctx =
     res_kw_each n E (collect_import_of_type d Resource) c ctx"

text \<open>
  \<^verbatim>\<open>_collect_vars_from_variable_files\<close>: the loader's \<^verbatim>\<open>DataError\<close> is swallowed; the
  \<^verbatim>\<open>os.path.join\<close> on a name that is not text is not.
\<close>

fun collect_vars_from_variable_files ::
  "ext \<Rightarrow> string \<Rightarrow> import list \<Rightarrow> retriever_context \<Rightarrow> py_exception + retriever_context" where
  "collect_vars_from_variable_files E dir [] ctx = Inr ctx"
| "collect_vars_from_variable_files E dir (imp # imps) ctx =
     (case replace_variables E (ctx_vars ctx) (imp_name imp) of
        VStr name \<Rightarrow>
          (let varfile_path = path_join E dir name;
               args = map (replace_variables E (ctx_vars ctx)) (imp_args imp)
           in collect_vars_from_variable_files E dir imps
                (case set_from_file E varfile_path args (ctx_vars ctx) of
                   Some s \<Rightarrow> ctx\<lparr>ctx_vars := s\<rparr>
                 | None \<Rightarrow> ctx))
      | _ \<Rightarrow> Inl AttributeError)"

text \<open>
  \<^verbatim>\<open>_collect_each_res_import\<close>. The collector receives the resource, the items gathered so
  far, the cache and the context, and returns the new items with the new state.
\<close>

fun collect_each_res_loop ::
  "ext \<Rightarrow> (resource \<Rightarrow> 'i \<Rightarrow> resource_cache \<Rightarrow> retriever_context \<Rightarrow> 'i outcome)
     \<Rightarrow> import list \<Rightarrow> 'i \<Rightarrow> resource_cache \<Rightarrow> retriever_context \<Rightarrow> 'i outcome" where
  "collect_each_res_loop E collector [] items c ctx = Some (Inr (items, c, ctx))"
| "collect_each_res_loop E collector (imp # imps) items c ctx =
     (case get_resource_value E (imp_directory imp)
             (replace_variables E (ctx_vars ctx) (imp_name imp)) c of
        Inl e \<Rightarrow> Some (Inl e)
      | Inr (None, c1) \<Rightarrow> collect_each_res_loop E collector imps items c1 ctx
      | Inr (Some res, c1) \<Rightarrow>
          if fst res \<in> ctx_parsed ctx then collect_each_res_loop E collector imps items c1 ctx
          else
            (case collector res items c1 (ctx\<lparr>ctx_parsed := insert (fst res) (ctx_parsed ctx)\<rparr>) of
               None \<Rightarrow> None
             | Some (Inl e) \<Rightarrow> Some (Inl e)
             | Some (Inr (items', c2, ctx2)) \<Rightarrow>
                 collect_each_res_loop E collector imps items' c2 ctx2))"

definition collect_each_res_import ::
  "ext \<Rightarrow> (resource \<Rightarrow> 'i \<Rightarrow> resource_cache \<Rightarrow> retriever_context \<Rightarrow> 'i outcome)
     \<Rightarrow> tdata \<Rightarrow> 'i \<Rightarrow> resource_cache \<Rightarrow> retriever_context \<Rightarrow> 'i outcome" where
  "collect_each_res_import E collector d empty_items c ctx =
     collect_each_res_loop E collector (collect_import_of_type d Resource) empty_items c
       (ctx\<lparr>ctx_vars := set_from_variable_table E (df_variable_table d) (ctx_vars ctx)\<rparr>)"

text \<open>\<^verbatim>\<open>_get_vars_recursive\<close> with \<^verbatim>\<open>_var_collector\<close> as the collector; it gathers no items.\<close>

fun get_vars_recursive ::
  "nat \<Rightarrow> ext \<Rightarrow> tdata \<Rightarrow> resource_cache \<Rightarrow> retriever_context \<Rightarrow> unit outcome" where
  "get_vars_recursive 0 E d c ctx = None"
| "get_vars_recursive (Suc n) E d c ctx =
     (case collect_vars_from_variable_files E (df_directory d) (collect_import_of_type d Variables)
             (ctx\<lparr>ctx_vars := set_from_variable_table E (df_variable_table d) (ctx_vars ctx)\<rparr>) of
        Inl e \<Rightarrow> Some (Inl e)
      | Inr ctx1 \<Rightarrow>
          collect_each_res_import E (\<lambda>res items c' ctx'. get_vars_recursive n E (snd res) c' ctx')
            d () c ctx1)"

text \<open>
  The loop at the end of \<^verbatim>\<open>get_keywords_from\<close>: \<^verbatim>\<open>k not in result_in_order\<close> compares with
  the equality of keyword infos.
\<close>

fun result_in_order :: "kwinfo list \<Rightarrow> kwinfo list \<Rightarrow> kwinfo list" where
  "result_in_order acc [] = acc"
| "result_in_order acc (k # ks) =
     result_in_order (if list_ex (\<lambda>x. kwinfo_eq x k) acc then acc else acc @ [k]) ks"

definition get_keywords_from ::
  "nat \<Rightarrow> ext \<Rightarrow> tdata \<Rightarrow> resource_cache \<Rightarrow> (py_exception + kwinfo list \<times> resource_cache) option"
  where
  "get_keywords_from n E d c =
     (case get_vars_recursive n E d c (new_context E) of
        None \<Rightarrow> None
      | Some (Inl e) \<Rightarrow> Some (Inl e)
      | Some (Inr (u, c1, ctx1)) \<Rightarrow>
          (let ctx2 = allow_going_through_resources_again ctx1;
               own = get_datafile_keywords d;
               libs = get_imported_library_keywords E d ctx2
           in case get_imported_resource_keywords n E d c1 ctx2 of
                None \<Rightarrow> None
              | Some (Inl e) \<Rightarrow> Some (Inl e)
              | Some (Inr (ress, c2, ctx3)) \<Rightarrow>
                  Some (Inr (result_in_order [] (own @ libs @ ress), c2))))"

text \<open>
  A Python set of resources is a list without repeated identities, in the order of
  insertion. Python leaves the iteration order of a set open, so the order among resources
  of equal name in the sorted result is the model's choice.
\<close>

definition set_add :: "resource \<Rightarrow> resource list \<Rightarrow> resource list" where
  "set_add r items = (if fst r \<in> fst ` set items then items else items @ [r])"

fun set_update :: "resource list \<Rightarrow> resource list \<Rightarrow> resource list" where
  "set_update items [] = items"
| "set_update items (r # rs) = set_update (set_add r items) rs"

definition sort_by_name :: "resource list \<Rightarrow> resource list" where
  "sort_by_name rs = sort_key (\<lambda>r. df_name (snd r)) rs"

text \<open>
  \<^verbatim>\<open>_get_resources_recursive\<close> with \<^verbatim>\<open>_add_resource\<close> as the collector, and the loop over
  the children, each of which goes through \<^verbatim>\<open>get_resources_from\<close> with a fresh context.
  A resource reached through the cache is a \<^verbatim>\<open>ResourceFile\<close>, which has no children.
\<close>

fun get_resources_recursive ::
      "nat \<Rightarrow> ext \<Rightarrow> datafile \<Rightarrow> resource_cache \<Rightarrow> retriever_context \<Rightarrow> resource list outcome"
  and get_resources_children ::
      "nat \<Rightarrow> ext \<Rightarrow> datafile list \<Rightarrow> resource list \<Rightarrow> resource_cache
         \<Rightarrow> (py_exception + resource list \<times> resource_cache) option"
where
  "get_resources_recursive 0 E df c ctx = None"
| "get_resources_recursive (Suc n) E (DataFile d chs) c ctx =
     (case collect_each_res_import E
             (\<lambda>res items c' ctx'.
                case get_resources_recursive n E (DataFile (snd res) []) c' ctx' of
                  None \<Rightarrow> None
                | Some (Inl e) \<Rightarrow> Some (Inl e)
                | Some (Inr (rs, c'', ctx'')) \<Rightarrow>
                    Some (Inr (set_update (set_add res items) rs, c'', ctx'')))
             d [] c ctx of
        None \<Rightarrow> None
      | Some (Inl e) \<Rightarrow> Some (Inl e)
      | Some (Inr (res, c1, ctx1)) \<Rightarrow>
          (case get_resources_children (Suc n) E chs (set_update [] res) c1 of
             None \<Rightarrow> None
           | Some (Inl e) \<Rightarrow> Some (Inl e)
           | Some (Inr (resources, c2)) \<Rightarrow> Some (Inr (resources, c2, ctx1))))"
| "get_resources_children n E [] resources c = Some (Inr (resources, c))"
| "get_resources_children n E (child # chs) resources c =
     (case get_resources_recursive n E child c (new_context E) of
        None \<Rightarrow> None
      | Some (Inl e) \<Rightarrow> Some (Inl e)
      | Some (Inr (rs, c1, ctx1)) \<Rightarrow>
          get_resources_children n E chs (set_update resources (sort_by_name rs)) c1)"

definition get_resources_from ::
  "nat \<Rightarrow> ext \<Rightarrow> datafile \<Rightarrow> resource_cache
     \<Rightarrow> (py_exception + resource list \<times> resource_cache) option" where
  "get_resources_from n E df c =
     (case get_resources_recursive n E df c (new_context E) of
        None \<Rightarrow> None
      | Some (Inl e) \<Rightarrow> Some (Inl e)
      | Some (Inr (rs, c1, ctx1)) \<Rightarrow> Some (Inr (sort_by_name rs, c1)))"

section \<open>The keyword dictionary and keyword lookup\<close>

text \<open>
  A \<^verbatim>\<open>NormalizedDict\<close> of keyword infos: a dictionary whose keys are normalised on every
  access.
\<close>

type_synonym kwdict = "string \<rightharpoonup> kwinfo"

definition nd_contains :: "ext \<Rightarrow> kwdict \<Rightarrow> string \<Rightarrow> bool" where
  "nd_contains E m key = (m (normalize E key) \<noteq> None)"

definition nd_get :: "ext \<Rightarrow> kwdict \<Rightarrow> string \<Rightarrow> kwinfo option" where
  "nd_get E m key = m (normalize E key)"

definition nd_set :: "ext \<Rightarrow> kwdict \<Rightarrow> string \<Rightarrow> kwinfo \<Rightarrow> kwdict" where
  "nd_set E m key v = m(normalize E key \<mapsto> v)"

definition keywords_to_dict_step :: "ext \<Rightarrow> kwdict \<Rightarrow> kwinfo \<Rightarrow> kwdict" where
  "keywords_to_dict_step E ret kw =
     nd_set E (if \<not> nd_contains E ret (kw_name kw) then nd_set E ret (kw_name kw) kw else ret)
       (kw_longname kw) kw"

fun keywords_to_dict_loop :: "ext \<Rightarrow> kwdict \<Rightarrow> kwinfo list \<Rightarrow> kwdict" where
  "keywords_to_dict_loop E ret [] = ret"
| "keywords_to_dict_loop E ret (kw # kws) =
     keywords_to_dict_loop E (keywords_to_dict_step E ret kw) kws"

definition keywords_to_dict :: "ext \<Rightarrow> kwinfo list \<Rightarrow> kwdict" where
  "keywords_to_dict E keywords = keywords_to_dict_loop E Map.empty keywords"

text \<open>
  Modelled from the spec: \<^verbatim>\<open>ExpiringCache\<close> (\<^verbatim>\<open>robotide.namespace.cache\<close>) is not among the
  sources. It is a dictionary from a key to the stored value; \<^verbatim>\<open>get\<close> returns the value or
  a miss, \<^verbatim>\<open>put\<close> stores. Expiry is by real time and is not modelled: an expired entry is
  an absent one.
\<close>

type_synonym keyword_cache = "string \<rightharpoonup> kwdict"

text \<open>
  \<^verbatim>\<open>get_keywords_dict_cached\<close>; \<^verbatim>\<open>not values\<close> holds for a miss and for an empty
  dictionary.
\<close>

definition get_keywords_dict_cached ::
  "nat \<Rightarrow> ext \<Rightarrow> tdata \<Rightarrow> resource_cache \<Rightarrow> keyword_cache
     \<Rightarrow> (py_exception + kwdict \<times> resource_cache \<times> keyword_cache) option" where
  "get_keywords_dict_cached n E d c kc =
     (if kc (df_source d) = None \<or> kc (df_source d) = Some Map.empty then
        (case get_keywords_from n E d c of
           None \<Rightarrow> None
         | Some (Inl e) \<Rightarrow> Some (Inl e)
         | Some (Inr (words, c1)) \<Rightarrow>
             (let vals = keywords_to_dict E (words @ get_default_keywords E)
              in Some (Inr (vals, c1, kc(df_source d \<mapsto> vals)))))
      else Some (Inr (the (kc (df_source d)), c, kc)))"

text \<open>
  The regular expression \<^verbatim>\<open>\s*(given|when|then|and)(.*)\<close> with \<^verbatim>\<open>re.IGNORECASE\<close>, matched
  at the start of the name: white space is skipped, one of the four words follows in any
  letter case, and group 2 is the rest of the line (the dot does not match a line feed).
\<close>

definition is_space :: "char \<Rightarrow> bool" where
  "is_space ch = (of_char ch \<in> {9, 10, 11, 12, 13, 32 :: nat})"

definition ascii_lower :: "char \<Rightarrow> char" where
  "ascii_lower ch =
     (if 65 \<le> (of_char ch :: nat) \<and> (of_char ch :: nat) \<le> 90
      then char_of ((of_char ch :: nat) + 32) else ch)"

definition istartswith :: "string \<Rightarrow> string \<Rightarrow> bool" where
  "istartswith s w = (map ascii_lower (take (length w) s) = w)"

definition bdd_words :: "string list" where
  "bdd_words = [''given'', ''when'', ''then'', ''and'']"

definition get_bdd_name :: "string \<Rightarrow> string option" where
  "get_bdd_name name =
     (let rest = dropWhile is_space name in
      case find (istartswith rest) bdd_words of
        None \<Rightarrow> None
      | Some w \<Rightarrow> Some (takeWhile (\<lambda>ch. ch \<noteq> CHR 0x0A) (drop (length w) rest)))"

definition lookup_keyword :: "ext \<Rightarrow> kwdict \<Rightarrow> string \<Rightarrow> kwinfo option" where
  "lookup_keyword E kwds name =
     (if nd_contains E kwds name then nd_get E kwds name
      else (case get_bdd_name name of
              Some bdd_name \<Rightarrow>
                if bdd_name \<noteq> [] \<and> nd_contains E kwds bdd_name then nd_get E kwds bdd_name
                else None
            | None \<Rightarrow> None))"

definition find_keyword ::
  "nat \<Rightarrow> ext \<Rightarrow> tdata \<Rightarrow> string \<Rightarrow> resource_cache \<Rightarrow> keyword_cache
     \<Rightarrow> (py_exception + kwinfo option \<times> resource_cache \<times> keyword_cache) option" where
  "find_keyword n E d name c kc =
     (if name = [] then Some (Inr (None, c, kc))
      else (case get_keywords_dict_cached n E d c kc of
              None \<Rightarrow> None
            | Some (Inl e) \<Rightarrow> Some (Inl e)
            | Some (Inr (kwds, c1, kc1)) \<Rightarrow> Some (Inr (lookup_keyword E kwds name, c1, kc1))))"

section \<open>Suggestion dispatch\<close>

definition startswith :: "string \<Rightarrow> string \<Rightarrow> bool" where
  "startswith s p = (take (length p) s = p)"

definition blank :: "string \<Rightarrow> bool" where
  "blank start = (start = [])"

text \<open>
  \<^verbatim>\<open>_looks_like_variable\<close>, with Python's grouping of \<^verbatim>\<open>and\<close> before \<^verbatim>\<open>or\<close> written
  out. The last prefix is the at sign followed by an opening brace.
\<close>

definition looks_like_variable :: "string \<Rightarrow> bool" where
  "looks_like_variable start =
     ((((length start = 1 \<and> startswith start ''$'') \<or> startswith start ''@''))
      \<or> ((length start \<ge> 2 \<and> startswith start ''${'') \<or> startswith start (CHR ''@'' # ''{'')))"

datatype suggestion_source = AllSuggestions | VariableSuggestions | KeywordSuggestions

text \<open>The branch that \<^verbatim>\<open>get_suggestions_for\<close> takes after it has asked the hooks.\<close>

definition get_suggestions_for_branch :: "string \<Rightarrow> suggestion_source" where
  "get_suggestions_for_branch start =
     (if blank start then AllSuggestions
      else if looks_like_variable start then VariableSuggestions
      else KeywordSuggestions)"

section \<open>Termination of the traversals\<close>

text \<open>
  The keys under which a parsed resource can ever be found: those the cache holds already
  and the normalised forms of the paths that parse. A traversal visits only such keys, so
  when they are finitely many, the unvisited ones bound the depth of the recursion.
  \<open>grows\<close> is what every traversal keeps when it returns: the cache stays within the
  keys and the visited set only grows.
\<close>

definition resource_keys :: "ext \<Rightarrow> resource_cache \<Rightarrow> string set" where
  "resource_keys E c =
     {k. \<exists>r. rc_cache c k = Some (Some r)} \<union> {normpath E p |p. parse_resource E p \<noteq> None}"

definition grows ::
  "string set \<Rightarrow> ext \<Rightarrow> retriever_context
     \<Rightarrow> (py_exception + 'a \<times> resource_cache \<times> retriever_context) \<Rightarrow> bool" where
  "grows U E ctx out =
     (\<forall>x c' ctx'. out = Inr (x, c', ctx') \<longrightarrow>
        resource_keys E c' \<subseteq> U \<and> ctx_parsed ctx \<subseteq> ctx_parsed ctx')"

section \<open>Example collaborators\<close>

text \<open>
  Concrete collaborators for evaluating the module on concrete inputs. They follow Robot
  Framework on names and values without escapes, nesting, item access, number variables
  and extended syntax: \<open>robot_normalize\<close> removes white space and lower-cases, the variable
  store also ignores underscores, \<open>robot_is_var\<close> is Robot's \<^verbatim>\<open>is_var\<close> (a dollar or at sign,
  the only opening brace second, the only closing brace last), a scalar name that is not
  stored falls back on the list of the same name, a reference inside text is replaced by
  the text of its value, the value of a list declaration is a list, and resolving a value
  that refers to an unbound variable raises \<^verbatim>\<open>DataError\<close>.
\<close>

definition robot_normalize :: "string \<Rightarrow> string" where
  "robot_normalize s = map ascii_lower (filter (\<lambda>ch. \<not> is_space ch) s)"

definition robot_var_normalize :: "string \<Rightarrow> string" where
  "robot_var_normalize s = filter (\<lambda>ch. ch \<noteq> CHR ''_'') (robot_normalize s)"

definition robot_is_var :: "string \<Rightarrow> bool" where
  "robot_is_var s =
     (length s > 3 \<and> (hd s = CHR ''$'' \<or> hd s = CHR ''@'')
      \<and> s ! 1 = CHR ''{'' \<and> CHR ''{'' \<notin> set (drop 2 s)
      \<and> last s = CHR ''}'' \<and> CHR ''}'' \<notin> set (butlast s))"

text \<open>\<^verbatim>\<open>Variables.__getitem__\<close>: the stored value, else the list stored under the at sign.\<close>

definition robot_lookup :: "(string \<rightharpoonup> pyvalue) \<Rightarrow> string \<Rightarrow> pyvalue option" where
  "robot_lookup store name =
     (case store (robot_var_normalize name) of
        Some v \<Rightarrow> Some v
      | None \<Rightarrow>
          (if hd name = CHR ''$'' then store (CHR ''@'' # tl (robot_var_normalize name))
           else None))"

definition robot_has_key :: "(string \<rightharpoonup> pyvalue) \<Rightarrow> string \<Rightarrow> bool" where
  "robot_has_key store name = (robot_lookup store name \<noteq> None)"

fun join_with :: "string \<Rightarrow> string list \<Rightarrow> string" where
  "join_with sep [] = []"
| "join_with sep [x] = x"
| "join_with sep (x # y # ys) = x @ sep @ join_with sep (y # ys)"

fun py_repr :: "pyvalue \<Rightarrow> string" where
  "py_repr (VStr t) = ''u'' @ [CHR 0x27] @ t @ [CHR 0x27]"
| "py_repr (VBool b) = (if b then ''True'' else ''False'')"
| "py_repr VNone = ''None''"
| "py_repr (VList xs) = ''['' @ join_with '', '' (map py_repr xs) @ '']''"

definition py_unicode :: "pyvalue \<Rightarrow> string" where
  "py_unicode v = (case v of VStr t \<Rightarrow> t | _ \<Rightarrow> py_repr v)"

text \<open>
  \<^verbatim>\<open>replace_string\<close>: \<open>scan_text\<close> copies the text up to a dollar sign and an opening
  brace, \<open>scan_ref\<close> reads the reference up to the closing brace. An unbound reference is
  \<^verbatim>\<open>DataError\<close>, or stays as written when \<^verbatim>\<open>ignore_errors\<close> is set.
\<close>

fun scan_text :: "bool \<Rightarrow> (string \<rightharpoonup> pyvalue) \<Rightarrow> string \<Rightarrow> string option"
  and scan_ref :: "bool \<Rightarrow> (string \<rightharpoonup> pyvalue) \<Rightarrow> string \<Rightarrow> string \<Rightarrow> string option" where
  "scan_text ignore_errors store [] = Some []"
| "scan_text ignore_errors store [ch] = Some [ch]"
| "scan_text ignore_errors store (a # b # rest) =
     (if a = CHR ''$'' \<and> b = CHR ''{'' then scan_ref ignore_errors store ''${'' rest
      else map_option ((#) a) (scan_text ignore_errors store (b # rest)))"
| "scan_ref ignore_errors store body [] = Some body"
| "scan_ref ignore_errors store body (ch # rest) =
     (if ch = CHR ''}'' then
        (case robot_lookup store (body @ ''}'') of
           None \<Rightarrow>
             if ignore_errors
             then map_option ((@) (body @ ''}'')) (scan_text ignore_errors store rest)
             else None
         | Some v \<Rightarrow> map_option ((@) (py_unicode v)) (scan_text ignore_errors store rest))
      else scan_ref ignore_errors store (body @ [ch]) rest)"

definition robot_replace_scalar :: "(string \<rightharpoonup> pyvalue) \<Rightarrow> string \<Rightarrow> pyvalue option" where
  "robot_replace_scalar store text =
     (if robot_is_var text then robot_lookup store text
      else map_option VStr (scan_text False store text))"

definition robot_replace_string :: "(string \<rightharpoonup> pyvalue) \<Rightarrow> string \<Rightarrow> string" where
  "robot_replace_string store text =
     (case scan_text True store text of Some t \<Rightarrow> t | None \<Rightarrow> text)"

text \<open>\<^verbatim>\<open>replace_list\<close>: a cell that is a list variable contributes the items of its list.\<close>

fun robot_replace_list :: "(string \<rightharpoonup> pyvalue) \<Rightarrow> string list \<Rightarrow> pyvalue list option" where
  "robot_replace_list store [] = Some []"
| "robot_replace_list store (cell # cells) =
     (case (if robot_is_var cell \<and> hd cell = CHR ''@'' then
              (case robot_lookup store cell of
                 Some (VList xs) \<Rightarrow> Some xs
               | Some v \<Rightarrow> Some [v]
               | None \<Rightarrow> None)
            else map_option (\<lambda>v. [v]) (robot_replace_scalar store cell)) of
        None \<Rightarrow> None
      | Some vs \<Rightarrow> map_option ((@) vs) (robot_replace_list store cells))"

definition robot_name_and_value ::
  "(string \<rightharpoonup> pyvalue) \<Rightarrow> string \<Rightarrow> string list \<Rightarrow> (string \<times> pyvalue) option" where
  "robot_name_and_value store name cells =
     (if \<not> robot_is_var name then None
      else if hd name = CHR ''@'' \<or> length cells \<noteq> 1 then
        map_option (\<lambda>vs. (name, VList vs)) (robot_replace_list store cells)
      else map_option (\<lambda>v. (name, v)) (robot_replace_scalar store (hd cells)))"

definition example_ext :: "(string \<times> tdata) list \<Rightarrow> (string \<times> kwinfo list) list \<Rightarrow> ext" where
  "example_ext files libraries =
     \<lparr>normalize = robot_normalize,
      var_normalize = robot_var_normalize,
      is_var = robot_is_var,
      has_key = robot_has_key,
      replace_scalar = robot_replace_scalar,
      replace_string = robot_replace_string,
      get_var_table_name_and_value = robot_name_and_value,
      load_variable_file = (\<lambda>path args. None),
      parse_resource = map_of files,
      find_from_pythonpath = (\<lambda>name. None),
      path_join = (\<lambda>directory name. directory @ ''/'' @ name),
      normpath = (\<lambda>path. path),
      get_library_keywords =
        (\<lambda>name args. case name of
                        VStr lib \<Rightarrow> (case map_of libraries lib of Some kws \<Rightarrow> kws | None \<Rightarrow> [])
                      | _ \<Rightarrow> []),
      get_default_keywords = [],
      global_variables =
        [(''${EMPTY}'', VStr []), (''${SPACE}'', VStr '' ''), (''${True}'', VBool True),
         (''${False}'', VBool False), (''${None}'', VNone)]\<rparr>"

text \<open>
  Example data: a suite that defines the keywords \<open>Login\<close> and \<open>Foo\<close> and imports the
  resource \<open>a.txt\<close>; \<open>a.txt\<close> defines \<open>Foo\<close>, imports the resource \<open>b.txt\<close> and the
  library \<open>Lib\<close>; \<open>b.txt\<close> defines \<open>Bar\<close> and imports \<open>a.txt\<close> back, which closes a
  cycle. \<open>login_suite\<close> defines \<open>Login\<close> only and imports nothing.
\<close>

definition resource_import :: "string \<Rightarrow> import" where
  "resource_import name =
     \<lparr>imp_kind = Resource, imp_name = name, imp_args = [], imp_directory = ''/s''\<rparr>"

definition example_resource_a :: tdata where
  "example_resource_a =
     \<lparr>df_keywords = [\<lparr>uk_name = ''Foo'', uk_source = ''a.txt''\<rparr>],
      df_imports =
        [\<lparr>imp_kind = Library, imp_name = ''Lib'', imp_args = [], imp_directory = ''/s''\<rparr>,
         resource_import ''b.txt''],
      df_variable_table = \<lparr>vt_variables = [], vt_source = ''/s/a.txt''\<rparr>,
      df_source = ''/s/a.txt'', df_directory = ''/s'', df_name = ''A''\<rparr>"

definition example_resource_b :: tdata where
  "example_resource_b =
     \<lparr>df_keywords = [\<lparr>uk_name = ''Bar'', uk_source = ''b.txt''\<rparr>],
      df_imports = [resource_import ''a.txt''],
      df_variable_table = \<lparr>vt_variables = [], vt_source = ''/s/b.txt''\<rparr>,
      df_source = ''/s/b.txt'', df_directory = ''/s'', df_name = ''B''\<rparr>"


definition login_suite :: tdata where
  "login_suite =
     \<lparr>df_keywords = [\<lparr>uk_name = ''Login'', uk_source = ''login.txt''\<rparr>],
      df_imports = [],
      df_variable_table = \<lparr>vt_variables = [], vt_source = ''/s/login.txt''\<rparr>,
      df_source = ''/s/login.txt'', df_directory = ''/s'', df_name = ''Login''\<rparr>"

definition lib_keyword :: kwinfo where
  "lib_keyword =
     \<lparr>kw_name = ''Lib Kw'', kw_longname = ''Lib.Lib Kw'', kw_source = ''Lib'',
      kw_origin = LibraryKeyword\<rparr>"

definition example_world :: ext where
  "example_world =
     example_ext [(''/s/a.txt'', example_resource_a), (''/s/b.txt'', example_resource_b)]
       [(''Lib'', [lib_keyword])]"

text \<open>
  The lookup as the specification words it, to compare with \<open>lookup_keyword\<close>: look the
  name up; on a miss, when the name is white space, one of the four words and a remainder,
  look the remainder up.
\<close>

definition claimed_bdd_remainder :: "string \<Rightarrow> string option" where
  "claimed_bdd_remainder name =
     (let rest = dropWhile is_space name in
      case find (istartswith rest) bdd_words of
        None \<Rightarrow> None
      | Some w \<Rightarrow> Some (drop (length w) rest))"

definition claimed_find_keyword :: "ext \<Rightarrow> kwdict \<Rightarrow> string \<Rightarrow> kwinfo option" where
  "claimed_find_keyword E kwds name =
     (case nd_get E kwds name of
        Some kw \<Rightarrow> Some kw
      | None \<Rightarrow>
          (case claimed_bdd_remainder name of
             Some remainder \<Rightarrow> nd_get E kwds remainder
           | None \<Rightarrow> None))"

definition nameless_suite :: tdata where
  "nameless_suite =
     \<lparr>df_keywords = [\<lparr>uk_name = [], uk_source = ''nameless.txt''\<rparr>],
      df_imports = [],
      df_variable_table = \<lparr>vt_variables = [], vt_source = ''/s/nameless.txt''\<rparr>,
      df_source = ''/s/nameless.txt'', df_directory = ''/s'', df_name = ''Nameless''\<rparr>"

definition login_keyword :: kwinfo where
  "login_keyword = TestCaseUserKeywordInfo \<lparr>uk_name = ''Login'', uk_source = ''login.txt''\<rparr>"

definition nameless_keyword :: kwinfo where
  "nameless_keyword = TestCaseUserKeywordInfo \<lparr>uk_name = [], uk_source = ''nameless.txt''\<rparr>"


text \<open>
  The result that a traversal returns, when it returns one. The list of one visited
  resource as the specification words it, to compare with \<open>res_kw_recursive_getter\<close>:
  the library keywords and the keywords of the nested resources come before the own user
  keywords. The keyword infos of the two example resources, and the cache after \<open>a.txt\<close>
  and after both resources have been parsed.
\<close>

definition returned :: "'a outcome \<Rightarrow> 'a option" where
  "returned out = (case out of Some (Inr (x, c, ctx)) \<Rightarrow> Some x | _ \<Rightarrow> None)"








section \<open>Properties\<close>

text \<open>
  C9. Calling \<open>allow_going_through_resources_again\<close> on a traversal context in any state
  keeps the context's variable environment as it is and empties the visited set; nothing
  else in the context changes.
\<close>

theorem allow_revisit_frame:
  "ctx_vars (allow_going_through_resources_again ctx) = ctx_vars ctx
   \<and> ctx_parsed (allow_going_through_resources_again ctx) = {}
   \<and> retriever_context.more (allow_going_through_resources_again ctx)
       = retriever_context.more ctx"
  by (simp add: allow_going_through_resources_again_def)

lemma example_ext_simps:
  "var_normalize (example_ext fs ls) = robot_var_normalize"
  "normalize (example_ext fs ls) = robot_normalize"
  "is_var (example_ext fs ls) = robot_is_var"
  "has_key (example_ext fs ls) = robot_has_key"
  "get_var_table_name_and_value (example_ext fs ls) = robot_name_and_value"
  "replace_scalar (example_ext fs ls) = robot_replace_scalar"
  "replace_string (example_ext fs ls) = robot_replace_string"
  "load_variable_file (example_ext fs ls) = (\<lambda>path args. None)"
  "parse_resource (example_ext fs ls) = map_of fs"
  "find_from_pythonpath (example_ext fs ls) = (\<lambda>name. None)"
  "path_join (example_ext fs ls) = (\<lambda>directory name. directory @ ''/'' @ name)"
  "normpath (example_ext fs ls) = (\<lambda>path. path)"
  "get_default_keywords (example_ext fs ls) = []"
  by (simp_all add: example_ext_def)

lemma norm_X: "robot_var_normalize ''${X}'' = ''${x}''"
  by code_simp

lemma norm_MISSING: "robot_var_normalize ''${MISSING}'' = ''${missing}''"
  by code_simp

lemma is_var_X: "robot_is_var ''${X}''" "robot_is_var ''${MISSING}''"
  by (simp_all add: robot_is_var_def)

text \<open>
  C3. The claim says that no application of a variable table, malformed declarations
  included, overwrites a binding that is already in the environment. Evaluated on the
  code: the environment binds \<open>${X}\<close> to \<open>1\<close>, the table of a resource declares
  \<open>${X}\<close> with a value that refers to an unbound variable, so that resolving it raises
  \<^verbatim>\<open>DataError\<close>; the \<^verbatim>\<open>except\<close> branch then sets \<open>${X}\<close> to the empty string without the
  \<^verbatim>\<open>has_key\<close> test of the \<^verbatim>\<open>try\<close> branch.
\<close>

theorem malformed_declaration_overwrites:
  "st_vars (set_from_variable_table (example_ext [] [])
      \<lparr>vt_variables = [\<lparr>var_name = ''${X}'', var_value = [''${MISSING}'']\<rparr>],
       vt_source = ''resource.txt''\<rparr>
      \<lparr>st_vars = [robot_var_normalize ''${X}'' \<mapsto> VStr ''1''],
       st_sources = [''${X}'' \<mapsto> ''suite.txt'']\<rparr>)
     (robot_var_normalize ''${X}'') = Some (VStr [])"
  by (simp add: set_from_variable_table_def set_from_variable_def stash_set_def
      robot_name_and_value_def robot_replace_scalar_def robot_lookup_def norm_X norm_MISSING
      is_var_X example_ext_simps)

text \<open>
  C6. The claim says that a text of two or more characters counts as a variable only when
  it starts with a dollar or at sign followed by an opening brace. Evaluated on the code:
  the text \<open>@x\<close> takes the variable branch, because \<^verbatim>\<open>and\<close> binds tighter than \<^verbatim>\<open>or\<close> and
  the test for a leading at sign stands alone.
\<close>

theorem at_sign_prefix_is_variable:
  "get_suggestions_for_branch ''@x'' = VariableSuggestions
   \<and> length ''@x'' \<noteq> 1 \<and> \<not> startswith ''@x'' ''${''
   \<and> \<not> startswith ''@x'' (CHR ''@'' # ''{'')"
  by (simp add: get_suggestions_for_branch_def blank_def looks_like_variable_def startswith_def)

lemma stash_set_all_vars_other:
  "k \<notin> set (map (\<lambda>p. var_normalize E (fst p)) items) \<Longrightarrow>
   st_vars (stash_set_all E src items s) k = st_vars s k"
  by (induction items arbitrary: s) (auto simp: stash_set_def)

lemma stash_set_all_vars:
  "distinct (map (\<lambda>p. var_normalize E (fst p)) items) \<Longrightarrow> (name, val) \<in> set items \<Longrightarrow>
   st_vars (stash_set_all E src items s) (var_normalize E name) = Some val"
proof (induction items arbitrary: s)
  case Nil
  then show ?case by simp
next
  case (Cons a items)
  obtain n v where a: "a = (n, v)" by (cases a)
  show ?case
  proof (cases "(name, val) = a")
    case True
    with Cons.prems a have "var_normalize E n \<notin> set (map (\<lambda>p. var_normalize E (fst p)) items)"
      by simp
    with True a show ?thesis
      by (simp add: stash_set_all_vars_other stash_set_def)
  next
    case False
    with Cons.prems have "(name, val) \<in> set items" "distinct (map (\<lambda>p. var_normalize E (fst p)) items)"
      by auto
    with Cons.IH a show ?thesis by simp
  qed
qed

lemma stash_set_all_sources:
  "(name, val) \<in> set items \<Longrightarrow> st_sources (stash_set_all E src items s) name = Some src"
proof (induction items arbitrary: s)
  case Nil
  then show ?case by simp
next
  case (Cons a items)
  obtain n v where a: "a = (n, v)" by (cases a)
  have keep: "\<And>s'. st_sources s' name = Some src \<Longrightarrow>
                st_sources (stash_set_all E src items s') name = Some src"
    by (induction items) (auto simp: stash_set_def)
  show ?case
  proof (cases "(name, val) \<in> set items")
    case True
    with Cons.IH a show ?thesis by simp
  next
    case False
    with Cons.prems a have "n = name" by auto
    with a show ?thesis by (simp add: keep stash_set_def)
  qed
qed

lemma set_from_variable_keeps:
  assumes stored: "\<And>store n. store (var_normalize E n) \<noteq> None \<Longrightarrow> has_key E store n"
      and resolves: "var_normalize E (var_name v) = k \<Longrightarrow>
             get_var_table_name_and_value E (st_vars s) (var_name v) (var_value v) \<noteq> None"
      and old: "st_vars s k = Some old"
  shows "st_vars (set_from_variable E src v s) k = Some old"
proof (cases "get_var_table_name_and_value E (st_vars s) (var_name v) (var_value v)")
  case None
  with resolves have "var_normalize E (var_name v) \<noteq> k" by auto
  with None old show ?thesis
    by (simp add: set_from_variable_def stash_set_def)
next
  case (Some p)
  obtain n val where p: "p = (n, val)" by (cases p)
  show ?thesis
  proof (cases "has_key E (st_vars s) n")
    case True
    with Some p old show ?thesis by (simp add: set_from_variable_def)
  next
    case False
    with stored [of "st_vars s" n] old have "var_normalize E n \<noteq> k" by auto
    with Some p False old show ?thesis
      by (simp add: set_from_variable_def stash_set_def)
  qed
qed

lemma set_from_variables_keeps:
  assumes stored: "\<And>store n. store (var_normalize E n) \<noteq> None \<Longrightarrow> has_key E store n"
      and resolves: "\<And>store v. v \<in> set vs \<Longrightarrow> var_normalize E (var_name v) = k \<Longrightarrow>
             get_var_table_name_and_value E store (var_name v) (var_value v) \<noteq> None"
  shows "st_vars s k = Some old \<Longrightarrow> st_vars (set_from_variables E src vs s) k = Some old"
  using resolves
proof (induction vs arbitrary: s)
  case Nil
  then show ?case by simp
next
  case (Cons v vs)
  have "st_vars (set_from_variable E src v s) k = Some old"
    by (rule set_from_variable_keeps [OF stored _ Cons.prems(1)]) (simp_all add: Cons.prems(2))
  then show ?case
    using Cons.IH Cons.prems(2) by simp
qed

lemma robot_has_key_stored:
  "store (robot_var_normalize n) \<noteq> None \<Longrightarrow> robot_has_key store n"
  by (auto simp: robot_has_key_def robot_lookup_def)


lemma norm_x_lower: "robot_var_normalize ''${x}'' = ''${x}''"
  by code_simp

text \<open>
  C10. When the variable file loads, \<open>set_from_file\<close> binds every loaded name to its
  loaded value and records the file as its source, whatever the environment held before
  (the loaded names come from a dictionary, so their normalised forms are distinct). The
  claim contrasts this with the variable table, which it says never overwrites a binding.
  On the code the contrast holds for the rows that resolve: a table keeps the binding of
  a name when every row that declares the name resolves (\<^verbatim>\<open>has_key\<close> being true at least of
  the stored names). It fails for a row that raises \<^verbatim>\<open>DataError\<close>: with \<open>${X}\<close> bound to
  \<open>1\<close>, the table with the rows \<open>${X} = 2\<close> and \<open>${X} = ${MISSING}\<close> leaves \<open>${X}\<close> bound
  to the empty string, where the first row alone leaves it bound to \<open>1\<close>.
\<close>

theorem set_from_file_overwrites:
  assumes "load_variable_file E path args = Some items"
      and "distinct (map (\<lambda>p. var_normalize E (fst p)) items)"
      and "(name, val) \<in> set items"
  shows "(\<exists>s'. set_from_file E path args s = Some s'
            \<and> st_vars s' (var_normalize E name) = Some val
            \<and> st_sources s' name = Some path)
         \<and> ((\<forall>store n. store (var_normalize E n) \<noteq> None \<longrightarrow> has_key E store n)
              \<longrightarrow> (\<forall>v \<in> set (vt_variables table). \<forall>store.
                     var_normalize E (var_name v) = k \<longrightarrow>
                     get_var_table_name_and_value E store (var_name v) (var_value v) \<noteq> None)
              \<longrightarrow> st_vars s k = Some old
              \<longrightarrow> st_vars (set_from_variable_table E table s) k = Some old)
         \<and> st_vars (set_from_variable_table (example_ext [] [])
               \<lparr>vt_variables = [\<lparr>var_name = ''${X}'', var_value = [''2'']\<rparr>],
                vt_source = ''resource.txt''\<rparr>
               \<lparr>st_vars = [''${x}'' \<mapsto> VStr ''1''],
                st_sources = [''${X}'' \<mapsto> ''suite.txt'']\<rparr>) ''${x}'' = Some (VStr ''1'')
         \<and> st_vars (set_from_variable_table (example_ext [] [])
               \<lparr>vt_variables = [\<lparr>var_name = ''${X}'', var_value = [''2'']\<rparr>,
                                \<lparr>var_name = ''${X}'', var_value = [''${MISSING}'']\<rparr>],
                vt_source = ''resource.txt''\<rparr>
               \<lparr>st_vars = [''${x}'' \<mapsto> VStr ''1''],
                st_sources = [''${X}'' \<mapsto> ''suite.txt'']\<rparr>) ''${x}'' = Some (VStr [])"
proof (intro conjI)
  show "\<exists>s'. set_from_file E path args s = Some s'
            \<and> st_vars s' (var_normalize E name) = Some val
            \<and> st_sources s' name = Some path"
    using assms
    by (simp add: set_from_file_def stash_set_all_vars stash_set_all_sources)
  show "(\<forall>store n. store (var_normalize E n) \<noteq> None \<longrightarrow> has_key E store n)
          \<longrightarrow> (\<forall>v \<in> set (vt_variables table). \<forall>store.
                 var_normalize E (var_name v) = k \<longrightarrow>
                 get_var_table_name_and_value E store (var_name v) (var_value v) \<noteq> None)
          \<longrightarrow> st_vars s k = Some old
          \<longrightarrow> st_vars (set_from_variable_table E table s) k = Some old"
    unfolding set_from_variable_table_def
    by (intro impI set_from_variables_keeps) auto
  show "st_vars (set_from_variable_table (example_ext [] [])
               \<lparr>vt_variables = [\<lparr>var_name = ''${X}'', var_value = [''2'']\<rparr>],
                vt_source = ''resource.txt''\<rparr>
               \<lparr>st_vars = [''${x}'' \<mapsto> VStr ''1''],
                st_sources = [''${X}'' \<mapsto> ''suite.txt'']\<rparr>) ''${x}'' = Some (VStr ''1'')"
    by (simp add: set_from_variable_table_def set_from_variable_def stash_set_def
        robot_name_and_value_def robot_replace_scalar_def robot_lookup_def robot_has_key_def
        robot_is_var_def norm_X norm_MISSING is_var_X example_ext_simps)
  show "st_vars (set_from_variable_table (example_ext [] [])
               \<lparr>vt_variables = [\<lparr>var_name = ''${X}'', var_value = [''2'']\<rparr>,
                                \<lparr>var_name = ''${X}'', var_value = [''${MISSING}'']\<rparr>],
                vt_source = ''resource.txt''\<rparr>
               \<lparr>st_vars = [''${x}'' \<mapsto> VStr ''1''],
                st_sources = [''${X}'' \<mapsto> ''suite.txt'']\<rparr>) ''${x}'' = Some (VStr [])"
    by (simp add: set_from_variable_table_def set_from_variable_def stash_set_def
        robot_name_and_value_def robot_replace_scalar_def robot_lookup_def robot_has_key_def
        robot_is_var_def norm_X norm_MISSING is_var_X example_ext_simps)
qed

theorem set_from_file_overwrites_witness:
  "st_vars \<lparr>st_vars = [''${x}'' \<mapsto> VStr ''1''], st_sources = [''${X}'' \<mapsto> ''suite.txt'']\<rparr>
      ''${x}'' = Some (VStr ''1'')
   \<and> (\<exists>s'. set_from_file
            ((example_ext [] [])\<lparr>load_variable_file :=
               (\<lambda>path args. Some [(''${X}'', VStr ''2'')])\<rparr>)
            ''vars.py'' []
            \<lparr>st_vars = [''${x}'' \<mapsto> VStr ''1''],
             st_sources = [''${X}'' \<mapsto> ''suite.txt'']\<rparr> = Some s'
          \<and> st_vars s' ''${x}'' = Some (VStr ''2'')
          \<and> st_sources s' ''${X}'' = Some ''vars.py'')
   \<and> st_vars (set_from_variable_table
         ((example_ext [] [])\<lparr>load_variable_file :=
            (\<lambda>path args. Some [(''${X}'', VStr ''2'')])\<rparr>)
         \<lparr>vt_variables = [\<lparr>var_name = ''${X}'', var_value = [''2'']\<rparr>,
                          \<lparr>var_name = ''${Y}'', var_value = [''${MISSING}'']\<rparr>],
          vt_source = ''resource.txt''\<rparr>
         \<lparr>st_vars = [''${x}'' \<mapsto> VStr ''1''],
          st_sources = [''${X}'' \<mapsto> ''suite.txt'']\<rparr>) ''${x}'' = Some (VStr ''1'')"
proof -
  let ?E = "(example_ext [] [])\<lparr>load_variable_file :=
              (\<lambda>path args. Some [(''${X}'', VStr ''2'')])\<rparr>"
  let ?s = "\<lparr>st_vars = [''${x}'' \<mapsto> VStr ''1''],
             st_sources = [''${X}'' \<mapsto> ''suite.txt'']\<rparr>"
  let ?table = "\<lparr>vt_variables = [\<lparr>var_name = ''${X}'', var_value = [''2'']\<rparr>,
                                  \<lparr>var_name = ''${Y}'', var_value = [''${MISSING}'']\<rparr>],
                  vt_source = ''resource.txt''\<rparr>"
  have E: "var_normalize ?E = robot_var_normalize" "has_key ?E = robot_has_key"
    "get_var_table_name_and_value ?E = robot_name_and_value"
    "load_variable_file ?E = (\<lambda>path args. Some [(''${X}'', VStr ''2'')])"
    by (simp_all add: example_ext_def)
  have norm_Y: "robot_var_normalize ''${Y}'' = ''${y}''"
    by code_simp
  have stored: "\<forall>store n. store (var_normalize ?E n) \<noteq> None \<longrightarrow> has_key ?E store n"
    by (simp add: E robot_has_key_stored)
  have resolves: "\<forall>v \<in> set (vt_variables ?table). \<forall>store.
          var_normalize ?E (var_name v) = ''${x}'' \<longrightarrow>
          get_var_table_name_and_value ?E store (var_name v) (var_value v) \<noteq> None"
    by (simp add: E norm_X norm_Y robot_name_and_value_def robot_replace_scalar_def
        robot_is_var_def)
  from set_from_file_overwrites
    [of ?E "''vars.py''" "[]" "[(''${X}'', VStr ''2'')]" "''${X}''" "VStr ''2''" ?s
        ?table "''${x}''" "VStr ''1''"]
    stored resolves
  show ?thesis
    by (simp add: E norm_X)
qed

lemma find_snoc:
  "find P (xs @ [x]) =
     (case find P xs of Some y \<Rightarrow> Some y | None \<Rightarrow> if P x then Some x else None)"
  by (induction xs) auto

lemma keywords_to_dict_loop_lookup:
  "keywords_to_dict_loop E ret kws key =
     (case find (\<lambda>kw. normalize E (kw_longname kw) = key) (rev kws) of
        Some kw \<Rightarrow> Some kw
      | None \<Rightarrow>
          (case ret key of
             Some kw \<Rightarrow> Some kw
           | None \<Rightarrow> find (\<lambda>kw. normalize E (kw_name kw) = key) kws))"
proof (induction kws arbitrary: ret)
  case Nil
  show ?case by (simp split: option.splits)
next
  case (Cons kw kws)
  show ?case
    by (simp add: Cons.IH find_snoc keywords_to_dict_step_def nd_set_def nd_contains_def
        split: option.splits)
qed

lemma keywords_to_dict_loop_dom:
  "dom (keywords_to_dict_loop E ret kws) =
     dom ret \<union> (\<lambda>kw. normalize E (kw_name kw)) ` set kws
             \<union> (\<lambda>kw. normalize E (kw_longname kw)) ` set kws"
  by (induction kws arbitrary: ret)
     (auto simp: keywords_to_dict_step_def nd_set_def nd_contains_def split: if_splits)

lemma login_suite_keywords:
  "get_keywords_from (Suc 0) (example_ext [] []) login_suite new_resource_cache =
     Some (Inr ([TestCaseUserKeywordInfo \<lparr>uk_name = ''Login'', uk_source = ''login.txt''\<rparr>],
                new_resource_cache))"
  by (simp add: get_keywords_from_def login_suite_def collect_import_of_type_def
      collect_each_res_import_def get_imported_resource_keywords_def
      get_imported_library_keywords_def get_datafile_keywords_def kwinfo_eq_def
      allow_going_through_resources_again_def)

text \<open>
  C8. The dictionary built by \<open>keywords_to_dict\<close> has as keys exactly the normalised short
  names and the normalised long names of the keywords. Under a key, it holds the last
  keyword of the list whose long name normalises to the key (a long name always
  overwrites); when there is none, the first keyword whose short name normalises to the key
  (a short name is set only when absent). On a miss of the keyword cache,
  \<open>get_keywords_dict_cached\<close> builds this dictionary from the keywords of the datafile
  followed by the default keywords, stores it and returns it.
\<close>

theorem keywords_to_dict_registers_both_names:
  "dom (keywords_to_dict E kws) =
     (\<lambda>kw. normalize E (kw_name kw)) ` set kws \<union> (\<lambda>kw. normalize E (kw_longname kw)) ` set kws
   \<and> nd_get E (keywords_to_dict E kws) key =
       (case find (\<lambda>kw. normalize E (kw_longname kw) = normalize E key) (rev kws) of
          Some kw \<Rightarrow> Some kw
        | None \<Rightarrow> find (\<lambda>kw. normalize E (kw_name kw) = normalize E key) kws)
   \<and> (get_keywords_from n E d c = Some (Inr (words, c1))
        \<and> (kc (df_source d) = None \<or> kc (df_source d) = Some Map.empty)
      \<longrightarrow> get_keywords_dict_cached n E d c kc =
            Some (Inr (keywords_to_dict E (words @ get_default_keywords E), c1,
                       kc(df_source d \<mapsto> keywords_to_dict E (words @ get_default_keywords E)))))"
  by (auto simp add: keywords_to_dict_def keywords_to_dict_loop_dom
      keywords_to_dict_loop_lookup nd_get_def get_keywords_dict_cached_def Let_def
      split: option.splits)

theorem keywords_to_dict_registers_both_names_witness:
  "get_keywords_from (Suc 0) (example_ext [] []) login_suite new_resource_cache =
     Some (Inr ([TestCaseUserKeywordInfo \<lparr>uk_name = ''Login'', uk_source = ''login.txt''\<rparr>],
                new_resource_cache))
   \<and> (Map.empty :: keyword_cache) (df_source login_suite) = None
   \<and> get_keywords_dict_cached (Suc 0) (example_ext [] []) login_suite new_resource_cache Map.empty =
       Some (Inr (keywords_to_dict (example_ext [] [])
                    [TestCaseUserKeywordInfo \<lparr>uk_name = ''Login'', uk_source = ''login.txt''\<rparr>],
                  new_resource_cache,
                  [df_source login_suite \<mapsto>
                     keywords_to_dict (example_ext [] [])
                       [TestCaseUserKeywordInfo
                          \<lparr>uk_name = ''Login'', uk_source = ''login.txt''\<rparr>]]))"
  using keywords_to_dict_registers_both_names
    [of "example_ext [] []" "[]" "[]" "Suc 0" login_suite new_resource_cache
        "[TestCaseUserKeywordInfo \<lparr>uk_name = ''Login'', uk_source = ''login.txt''\<rparr>]"
        new_resource_cache Map.empty]
    login_suite_keywords
  by (simp add: example_ext_simps)

lemma by_path_keeps:
  "rc_cache c k = Some e \<Longrightarrow> rc_cache (snd (get_resource_by_path E p c)) k = Some e"
  by (auto simp: get_resource_by_path_def Let_def split: option.splits)

lemma by_path_log:
  "rc_parse_log (snd (get_resource_by_path E p c)) =
     rc_parse_log c @ (if rc_cache c (normpath E p) = None then [p] else [])"
  by (auto simp: get_resource_by_path_def Let_def split: option.splits)

lemma by_path_filled:
  "rc_cache (snd (get_resource_by_path E p c)) (normpath E p) \<noteq> None"
  by (auto simp: get_resource_by_path_def Let_def split: option.splits)

lemma by_path_pp:
  "rc_python_path_cache (snd (get_resource_by_path E p c)) = rc_python_path_cache c"
  by (auto simp: get_resource_by_path_def Let_def split: option.splits)

lemma by_path_negative:
  "rc_cache c (normpath E p) = Some None \<Longrightarrow> get_resource_by_path E p c = (None, c)"
  by (auto simp: get_resource_by_path_def Let_def split: option.splits)

lemma by_path_cached:
  "rc_cache c (normpath E p) \<noteq> None \<Longrightarrow> snd (get_resource_by_path E p c) = c"
  by (auto simp: get_resource_by_path_def Let_def split: option.splits)

lemma by_path_miss_fail:
  "rc_cache c (normpath E p) = None \<Longrightarrow> parse_resource E p = None \<Longrightarrow>
   get_resource_by_path E p c =
     (None, c\<lparr>rc_cache := (rc_cache c)(normpath E p \<mapsto> None),
              rc_parse_log := rc_parse_log c @ [p]\<rparr>)"
  by (auto simp: get_resource_by_path_def Let_def split: option.splits)

lemma python_path_cache:
  "rc_cache (snd (get_python_path E n c)) = rc_cache c"
  "rc_parse_log (snd (get_python_path E n c)) = rc_parse_log c"
  by (simp_all add: get_python_path_def split: option.splits)

lemma python_path_cached:
  "rc_python_path_cache (snd (get_python_path E n c)) n = Some (fst (get_python_path E n c))"
  by (simp add: get_python_path_def split: option.splits)

lemma python_path_hit:
  "rc_python_path_cache c n = Some pp \<Longrightarrow> get_python_path E n c = (pp, c)"
  by (simp add: get_python_path_def)

lemma get_resource_unfold:
  "get_resource E d n c =
     (if fst (get_resource_by_path E (direct_path E d n) c) \<noteq> None
      then get_resource_by_path E (direct_path E d n) c
      else (case fst (get_python_path E n (snd (get_resource_by_path E (direct_path E d n) c))) of
              Some p \<Rightarrow>
                if p \<noteq> []
                then get_resource_by_path E p
                       (snd (get_python_path E n (snd (get_resource_by_path E (direct_path E d n) c))))
                else (None, snd (get_python_path E n
                                   (snd (get_resource_by_path E (direct_path E d n) c))))
            | None \<Rightarrow>
                (None, snd (get_python_path E n
                              (snd (get_resource_by_path E (direct_path E d n) c))))))"
proof -
  obtain r c1 where a: "get_resource_by_path E (direct_path E d n) c = (r, c1)"
    by (cases "get_resource_by_path E (direct_path E d n) c")
  obtain pp c2 where b: "get_python_path E n c1 = (pp, c2)"
    by (cases "get_python_path E n c1")
  show ?thesis
    using a b by (cases pp) (simp_all add: get_resource_def direct_path_def)
qed

lemma get_resource_keeps:
  "rc_cache c k = Some e \<Longrightarrow> rc_cache (snd (get_resource E d n c)) k = Some e"
  by (simp add: get_resource_unfold by_path_keeps python_path_cache split: option.splits)

lemma by_path_keeps_filled:
  "rc_cache c k \<noteq> None \<Longrightarrow> rc_cache (snd (get_resource_by_path E p c)) k \<noteq> None"
  using by_path_keeps [of c k _ E p] by auto

lemma by_path_log_other:
  "rc_cache c k \<noteq> None \<Longrightarrow>
   filter (\<lambda>q. normpath E q = k) (rc_parse_log (snd (get_resource_by_path E p c))) =
   filter (\<lambda>q. normpath E q = k) (rc_parse_log c)"
  by (auto simp: by_path_log)

lemma get_resource_log_other:
  assumes "rc_cache c k \<noteq> None"
  shows "filter (\<lambda>p. normpath E p = k) (rc_parse_log (snd (get_resource E d n c))) =
         filter (\<lambda>p. normpath E p = k) (rc_parse_log c)"
proof -
  let ?c1 = "snd (get_resource_by_path E (direct_path E d n) c)"
  let ?c2 = "snd (get_python_path E n ?c1)"
  have l1: "filter (\<lambda>p. normpath E p = k) (rc_parse_log ?c1) =
            filter (\<lambda>p. normpath E p = k) (rc_parse_log c)"
    using assms by (rule by_path_log_other)
  have f1: "rc_cache ?c1 k \<noteq> None"
    using assms by (rule by_path_keeps_filled)
  then have f2: "rc_cache ?c2 k \<noteq> None"
    by (simp add: python_path_cache)
  have l2: "\<And>p. filter (\<lambda>q. normpath E q = k) (rc_parse_log (snd (get_resource_by_path E p ?c2))) =
            filter (\<lambda>q. normpath E q = k) (rc_parse_log c)"
    using by_path_log_other [OF f2] l1 by (simp add: python_path_cache)
  show ?thesis
    by (simp add: get_resource_unfold l1 l2 python_path_cache split: option.splits)
qed

text \<open>
  C7. When the direct path of a \<open>get_resource\<close> call is not yet in the cache and its parse
  raises, the call leaves a negative entry under the normalised path. Every later call
  keeps that entry and makes no parse attempt for that normalised path, and a second call
  with the same arguments makes no parse attempt at all: over the two calls, the path is
  handed to the parser exactly once.
\<close>

theorem failed_parse_is_memoized:
  assumes "rc_cache c (normpath E (direct_path E directory name)) = None"
      and "parse_resource E (direct_path E directory name) = None"
  shows "rc_cache (snd (get_resource E directory name c))
           (normpath E (direct_path E directory name)) = Some None
       \<and> rc_cache (snd (get_resource E d' n' (snd (get_resource E directory name c))))
           (normpath E (direct_path E directory name)) = Some None
       \<and> rc_parse_log (snd (get_resource E directory name (snd (get_resource E directory name c))))
           = rc_parse_log (snd (get_resource E directory name c))
       \<and> filter (\<lambda>p. normpath E p = normpath E (direct_path E directory name))
            (rc_parse_log (snd (get_resource E directory name c)))
           = filter (\<lambda>p. normpath E p = normpath E (direct_path E directory name))
               (rc_parse_log c) @ [direct_path E directory name]
       \<and> filter (\<lambda>p. normpath E p = normpath E (direct_path E directory name))
            (rc_parse_log (snd (get_resource E d' n' (snd (get_resource E directory name c)))))
           = filter (\<lambda>p. normpath E p = normpath E (direct_path E directory name))
               (rc_parse_log (snd (get_resource E directory name c)))"
proof -
  let ?path = "direct_path E directory name"
  let ?k = "normpath E ?path"
  let ?c0 = "c\<lparr>rc_cache := (rc_cache c)(?k \<mapsto> None), rc_parse_log := rc_parse_log c @ [?path]\<rparr>"
  let ?c1 = "snd (get_resource E directory name c)"
  have bp: "get_resource_by_path E ?path c = (None, ?c0)"
    using assms by (rule by_path_miss_fail)
  have neg0: "rc_cache ?c0 ?k = Some None" by simp
  let ?cp = "snd (get_python_path E name ?c0)"
  have negp: "rc_cache ?cp ?k = Some None"
    by (simp add: python_path_cache)
  have neg1: "rc_cache ?c1 ?k = Some None"
    by (simp add: get_resource_unfold bp negp by_path_keeps split: option.splits)
  have neg2: "rc_cache (snd (get_resource E d' n' ?c1)) ?k = Some None"
    using neg1 by (rule get_resource_keeps)
  have log0: "filter (\<lambda>p. normpath E p = ?k) (rc_parse_log ?cp) =
              filter (\<lambda>p. normpath E p = ?k) (rc_parse_log c) @ [?path]"
    by (simp add: python_path_cache)
  have filledp: "rc_cache ?cp ?k \<noteq> None" using negp by simp
  have log1: "filter (\<lambda>p. normpath E p = ?k) (rc_parse_log ?c1) =
              filter (\<lambda>p. normpath E p = ?k) (rc_parse_log c) @ [?path]"
    using by_path_log_other [OF filledp] log0
    by (simp add: get_resource_unfold bp split: option.splits)
  have log2: "filter (\<lambda>p. normpath E p = ?k) (rc_parse_log (snd (get_resource E d' n' ?c1))) =
              filter (\<lambda>p. normpath E p = ?k) (rc_parse_log ?c1)"
    using neg1 by (intro get_resource_log_other) simp
  have pp1: "rc_python_path_cache ?c1 name = Some (fst (get_python_path E name ?c0))"
    by (simp add: get_resource_unfold bp python_path_cached by_path_pp split: option.splits)
  have again_direct: "get_resource_by_path E ?path ?c1 = (None, ?c1)"
    using neg1 by (rule by_path_negative)
  have again_pp: "get_python_path E name ?c1 = (fst (get_python_path E name ?c0), ?c1)"
    using pp1 by (rule python_path_hit)
  have filled_p: "\<And>p. fst (get_python_path E name ?c0) = Some p \<Longrightarrow> p \<noteq> [] \<Longrightarrow>
                    rc_cache ?c1 (normpath E p) \<noteq> None"
    by (simp add: get_resource_unfold bp by_path_filled)
  have same: "rc_parse_log (snd (get_resource E directory name ?c1)) = rc_parse_log ?c1"
    using filled_p
    by (simp add: get_resource_unfold [of E directory name ?c1] again_direct again_pp
        by_path_cached split: option.splits)
  show ?thesis using neg1 neg2 same log1 log2 by blast
qed

theorem failed_parse_is_memoized_witness:
  "rc_cache new_resource_cache
     (normpath example_world (direct_path example_world ''/s'' ''missing.txt'')) = None
   \<and> parse_resource example_world (direct_path example_world ''/s'' ''missing.txt'') = None
   \<and> rc_cache (snd (get_resource example_world ''/s'' ''missing.txt'' new_resource_cache))
         (normpath example_world (direct_path example_world ''/s'' ''missing.txt'')) = Some None
   \<and> rc_parse_log
         (snd (get_resource example_world ''/s'' ''missing.txt''
                 (snd (get_resource example_world ''/s'' ''missing.txt'' new_resource_cache))))
       = rc_parse_log (snd (get_resource example_world ''/s'' ''missing.txt'' new_resource_cache))
   \<and> rc_parse_log (snd (get_resource example_world ''/s'' ''missing.txt'' new_resource_cache))
       = [''/s/missing.txt'']"
proof -
  have h1: "rc_cache new_resource_cache
     (normpath example_world (direct_path example_world ''/s'' ''missing.txt'')) = None"
    by (simp add: new_resource_cache_def)
  have h2: "parse_resource example_world (direct_path example_world ''/s'' ''missing.txt'') = None"
    by (simp add: example_world_def example_ext_simps direct_path_def)
  have h3: "rc_parse_log (snd (get_resource example_world ''/s'' ''missing.txt'' new_resource_cache))
       = [''/s/missing.txt'']"
    by (simp add: get_resource_def get_resource_by_path_def get_python_path_def
        new_resource_cache_def example_world_def example_ext_simps Let_def)
  show ?thesis
    using h1 h2 h3 failed_parse_is_memoized [OF h1 h2] by blast
qed

lemma space_not_letter: "is_space ch \<Longrightarrow> ascii_lower ch = ch"
  by (auto simp: is_space_def ascii_lower_def)

lemma bdd_word_head:
  assumes "map ascii_lower w \<in> set bdd_words"
  shows "w \<noteq> [] \<and> \<not> is_space (hd w)"
proof -
  from assms obtain a w' where w: "w = a # w'"
    by (cases w) (auto simp: bdd_words_def)
  have "ascii_lower a \<in> {CHR ''g'', CHR ''w'', CHR ''t'', CHR ''a''}"
    using assms w by (auto simp: bdd_words_def)
  then have "\<not> is_space a"
    using space_not_letter [of a] by (auto simp: is_space_def)
  with w show ?thesis by simp
qed

lemma dropWhile_spaces:
  assumes "\<forall>ch\<in>set ws. is_space ch" "map ascii_lower w \<in> set bdd_words"
  shows "dropWhile is_space (ws @ w @ r) = w @ r"
proof -
  from bdd_word_head [OF assms(2)] obtain a w' where w: "w = a # w'" "\<not> is_space a"
    by (cases w) auto
  have "dropWhile is_space (ws @ (a # w' @ r)) = a # w' @ r"
    using assms(1) w(2) by (simp add: dropWhile_append3)
  with w show ?thesis by simp
qed

lemma find_bdd_word:
  assumes "map ascii_lower w \<in> set bdd_words"
  shows "find (istartswith (w @ r)) bdd_words = Some (map ascii_lower w)"
proof -
  have len: "\<And>x. map ascii_lower w = x \<Longrightarrow> length w = length x" by auto
  from assms consider "map ascii_lower w = ''given''" | "map ascii_lower w = ''when''"
    | "map ascii_lower w = ''then''" | "map ascii_lower w = ''and''"
    by (auto simp: bdd_words_def)
  then show ?thesis
  proof cases
    case 1
    then show ?thesis by (auto simp: bdd_words_def istartswith_def dest: len)
  next
    case 2
    from len [OF 2] obtain a b c d where "w = [a, b, c, d]"
      by (cases w; simp; cases "tl w"; simp; cases "tl (tl w)"; simp; cases "tl (tl (tl w))"; auto)
    with 2 show ?thesis by (auto simp: bdd_words_def istartswith_def)
  next
    case 3
    from len [OF 3] obtain a b c d where "w = [a, b, c, d]"
      by (cases w; simp; cases "tl w"; simp; cases "tl (tl w)"; simp; cases "tl (tl (tl w))"; auto)
    with 3 show ?thesis by (auto simp: bdd_words_def istartswith_def)
  next
    case 4
    from len [OF 4] obtain a b c where "w = [a, b, c]"
      by (cases w; simp; cases "tl w"; simp; cases "tl (tl w)"; auto)
    with 4 show ?thesis by (auto simp: bdd_words_def istartswith_def)
  qed
qed

lemma get_bdd_name_match:
  assumes "\<forall>ch\<in>set ws. is_space ch" "map ascii_lower w \<in> set bdd_words"
  shows "get_bdd_name (ws @ w @ r) = Some (takeWhile (\<lambda>ch. ch \<noteq> CHR 0x0A) r)"
proof -
  have "dropWhile is_space (ws @ w @ r) = w @ r"
    using assms by (rule dropWhile_spaces)
  then show ?thesis
    unfolding get_bdd_name_def Let_def
    by (simp only: find_bdd_word [OF assms(2)] option.case length_map append_eq_conv_conj
        drop_append, simp)
qed

lemma get_bdd_name_Some:
  assumes "get_bdd_name name = Some x"
  shows "\<exists>ws w r. name = ws @ w @ r \<and> (\<forall>ch\<in>set ws. is_space ch)
           \<and> map ascii_lower w \<in> set bdd_words
           \<and> x = takeWhile (\<lambda>ch. ch \<noteq> CHR 0x0A) r"
proof -
  let ?rest = "dropWhile is_space name"
  from assms obtain w' where f: "find (istartswith ?rest) bdd_words = Some w'"
    and x: "x = takeWhile (\<lambda>ch. ch \<noteq> CHR 0x0A) (drop (length w') ?rest)"
    by (auto simp: get_bdd_name_def Let_def split: option.splits)
  from f have w': "w' \<in> set bdd_words" "istartswith ?rest w'"
    by (auto simp: find_Some_iff)
  have "name = takeWhile is_space name @ take (length w') ?rest @ drop (length w') ?rest"
    by simp
  moreover have "\<forall>ch\<in>set (takeWhile is_space name). is_space ch"
    by (auto dest: set_takeWhileD)
  moreover have "map ascii_lower (take (length w') ?rest) \<in> set bdd_words"
    using w' by (simp add: istartswith_def)
  ultimately show ?thesis using x by blast
qed

lemma norm_login:
  "robot_normalize ''Login'' = ''login''"
  "robot_normalize '' Login'' = ''login''"
  "robot_normalize '' login'' = ''login''"
  "robot_normalize ''Given Login'' = ''givenlogin''"
  "robot_normalize ''given login'' = ''givenlogin''"
  "robot_normalize ''Logon'' = ''logon''"
  by code_simp+

lemma bdd_examples:
  "get_bdd_name ''Given Login'' = Some '' Login''"
  "get_bdd_name ''given login'' = Some '' login''"
  "get_bdd_name ''Logon'' = None"
  by code_simp+

lemma login_source: "df_source login_suite = ''/s/login.txt''"
  by (simp add: login_suite_def)

lemma login_dict:
  "get_keywords_dict_cached (Suc 0) (example_ext [] []) login_suite new_resource_cache Map.empty =
     Some (Inr ([''login'' \<mapsto> TestCaseUserKeywordInfo \<lparr>uk_name = ''Login'', uk_source = ''login.txt''\<rparr>],
            new_resource_cache,
            [''/s/login.txt'' \<mapsto> [''login'' \<mapsto> TestCaseUserKeywordInfo \<lparr>uk_name = ''Login'', uk_source = ''login.txt''\<rparr>]]))"
  by (simp add: get_keywords_dict_cached_def login_suite_keywords keywords_to_dict_def
      keywords_to_dict_step_def nd_set_def nd_contains_def example_ext_simps norm_login
      TestCaseUserKeywordInfo_def login_source Let_def)

lemma login_found:
  "find_keyword (Suc 0) (example_ext [] []) login_suite ''Given Login'' new_resource_cache Map.empty =
     Some (Inr (Some (TestCaseUserKeywordInfo \<lparr>uk_name = ''Login'', uk_source = ''login.txt''\<rparr>),
            new_resource_cache,
            [''/s/login.txt'' \<mapsto> [''login'' \<mapsto> TestCaseUserKeywordInfo \<lparr>uk_name = ''Login'', uk_source = ''login.txt''\<rparr>]]))"
  "find_keyword (Suc 0) (example_ext [] []) login_suite ''given login'' new_resource_cache Map.empty =
     Some (Inr (Some (TestCaseUserKeywordInfo \<lparr>uk_name = ''Login'', uk_source = ''login.txt''\<rparr>),
            new_resource_cache,
            [''/s/login.txt'' \<mapsto> [''login'' \<mapsto> TestCaseUserKeywordInfo \<lparr>uk_name = ''Login'', uk_source = ''login.txt''\<rparr>]]))"
  "find_keyword (Suc 0) (example_ext [] []) login_suite ''Logon'' new_resource_cache Map.empty =
     Some (Inr (None,
            new_resource_cache,
            [''/s/login.txt'' \<mapsto> [''login'' \<mapsto> TestCaseUserKeywordInfo \<lparr>uk_name = ''Login'', uk_source = ''login.txt''\<rparr>]]))"
  by (simp_all add: find_keyword_def login_dict lookup_keyword_def nd_contains_def nd_get_def
      example_ext_simps norm_login bdd_examples)


lemma nameless_suite_keywords:
  "get_keywords_from (Suc 0) (example_ext [] []) nameless_suite new_resource_cache =
     Some (Inr ([nameless_keyword], new_resource_cache))"
  by (simp add: get_keywords_from_def nameless_suite_def collect_import_of_type_def
      collect_each_res_import_def get_imported_resource_keywords_def
      get_imported_library_keywords_def get_datafile_keywords_def kwinfo_eq_def
      allow_going_through_resources_again_def nameless_keyword_def)

lemma norm_empty: "robot_normalize [] = []" "robot_normalize ''Given'' = ''given''"
  by code_simp+

lemma nameless_source: "df_source nameless_suite = ''/s/nameless.txt''"
  by (simp add: nameless_suite_def)

lemma nameless_dict:
  "get_keywords_dict_cached (Suc 0) (example_ext [] []) nameless_suite new_resource_cache Map.empty =
     Some (Inr ([[] \<mapsto> nameless_keyword], new_resource_cache,
                [''/s/nameless.txt'' \<mapsto> [[] \<mapsto> nameless_keyword]]))"
  by (simp add: get_keywords_dict_cached_def nameless_suite_keywords keywords_to_dict_def
      keywords_to_dict_step_def nd_set_def nd_contains_def example_ext_simps norm_empty
      nameless_keyword_def TestCaseUserKeywordInfo_def nameless_source Let_def)

lemma bdd_line_feed:
  "get_bdd_name (''Given'' @ [CHR 0x0A] @ ''Login'') = Some []"
  "claimed_bdd_remainder (''Given'' @ [CHR 0x0A] @ ''Login'') = Some ([CHR 0x0A] @ ''Login'')"
  "robot_normalize (''Given'' @ [CHR 0x0A] @ ''Login'') = ''givenlogin''"
  "robot_normalize ([CHR 0x0A] @ ''Login'') = ''login''"
  "get_bdd_name ''Given'' = Some []"
  "claimed_bdd_remainder ''Given'' = Some []"
  "claimed_bdd_remainder [] = None"
  by code_simp+

text \<open>
  C5, as stated, on three inputs. A suite whose only keyword has the empty name: the
  dictionary holds it under the empty key, and the lookup worded by the claim finds it for
  the empty name and for \<open>Given\<close>; \<open>find_keyword\<close> returns nothing for both, the first
  without building the dictionary. A suite whose only keyword is \<open>Login\<close>, and the name
  \<open>Given\<close>, line feed, \<open>Login\<close>: the remainder after the word normalises to \<open>login\<close>, but
  group 2 of the regular expression stops at the line feed, is empty, and nothing is found.
\<close>

theorem find_keyword_guards_counterexample:
  "get_keywords_dict_cached (Suc 0) (example_ext [] []) nameless_suite new_resource_cache Map.empty =
     Some (Inr ([[] \<mapsto> nameless_keyword], new_resource_cache,
                [''/s/nameless.txt'' \<mapsto> [[] \<mapsto> nameless_keyword]]))
   \<and> claimed_find_keyword (example_ext [] []) [[] \<mapsto> nameless_keyword] [] = Some nameless_keyword
   \<and> find_keyword (Suc 0) (example_ext [] []) nameless_suite [] new_resource_cache Map.empty =
       Some (Inr (None, new_resource_cache, Map.empty))
   \<and> claimed_find_keyword (example_ext [] []) [[] \<mapsto> nameless_keyword] ''Given''
       = Some nameless_keyword
   \<and> find_keyword (Suc 0) (example_ext [] []) nameless_suite ''Given'' new_resource_cache Map.empty =
       Some (Inr (None, new_resource_cache,
                  [''/s/nameless.txt'' \<mapsto> [[] \<mapsto> nameless_keyword]]))
   \<and> get_keywords_dict_cached (Suc 0) (example_ext [] []) login_suite new_resource_cache Map.empty =
       Some (Inr ([''login'' \<mapsto> login_keyword], new_resource_cache,
                  [''/s/login.txt'' \<mapsto> [''login'' \<mapsto> login_keyword]]))
   \<and> claimed_find_keyword (example_ext [] []) [''login'' \<mapsto> login_keyword]
         (''Given'' @ [CHR 0x0A] @ ''Login'') = Some login_keyword
   \<and> find_keyword (Suc 0) (example_ext [] []) login_suite (''Given'' @ [CHR 0x0A] @ ''Login'')
         new_resource_cache Map.empty =
       Some (Inr (None, new_resource_cache, [''/s/login.txt'' \<mapsto> [''login'' \<mapsto> login_keyword]]))"
  using bdd_line_feed
  by (simp add: find_keyword_def nameless_dict login_dict lookup_keyword_def nd_contains_def
      nd_get_def example_ext_simps norm_empty claimed_find_keyword_def login_keyword_def)


lemma lookup_keyword_hit:
  "nd_get E kwds name \<noteq> None \<Longrightarrow> lookup_keyword E kwds name = nd_get E kwds name"
  by (simp add: lookup_keyword_def nd_contains_def nd_get_def)

lemma lookup_keyword_bdd:
  assumes "nd_get E kwds name = None" "name = ws @ w @ rest" "\<forall>ch\<in>set ws. is_space ch"
      and "map ascii_lower w \<in> set bdd_words"
  shows "lookup_keyword E kwds name =
           (if takeWhile (\<lambda>ch. ch \<noteq> CHR 0x0A) rest = [] then None
            else nd_get E kwds (takeWhile (\<lambda>ch. ch \<noteq> CHR 0x0A) rest))"
proof -
  have "get_bdd_name name = Some (takeWhile (\<lambda>ch. ch \<noteq> CHR 0x0A) rest)"
    using assms(2-4) get_bdd_name_match by simp
  with assms(1) show ?thesis
    by (auto simp: lookup_keyword_def nd_contains_def nd_get_def)
qed

lemma lookup_keyword_no_match:
  assumes "nd_get E kwds name = None"
      and "\<not> (\<exists>ws w rest. name = ws @ w @ rest \<and> (\<forall>ch\<in>set ws. is_space ch)
                 \<and> map ascii_lower w \<in> set bdd_words)"
  shows "lookup_keyword E kwds name = None"
proof -
  have "get_bdd_name name = None"
  proof (cases "get_bdd_name name")
    case None
    then show ?thesis .
  next
    case (Some x)
    from get_bdd_name_Some [OF Some] assms(2) show ?thesis by blast
  qed
  with assms(1) show ?thesis
    by (simp add: lookup_keyword_def nd_contains_def nd_get_def)
qed

text \<open>
  C5, amended. The empty name yields nothing, without a look at the dictionary. For a name
  that is not empty, \<open>find_keyword\<close> returns what the cached dictionary holds under the
  name; on a miss, when the name is white space, then one of given, when, then, and in any
  letter case, then a rest, it returns what the dictionary holds under the rest up to the
  first line feed, and nothing when that is empty; on a miss with no such shape, nothing.
  With \<open>Login\<close> the only keyword, \<open>Given Login\<close> and \<open>given login\<close> find it and \<open>Logon\<close>
  finds nothing.
\<close>

theorem find_keyword_lookup:
  "find_keyword n E d [] c kc = Some (Inr (None, c, kc))
   \<and> (name \<noteq> [] \<and> get_keywords_dict_cached n E d c kc = Some (Inr (kwds, c1, kc1)) \<longrightarrow>
        (\<exists>r. find_keyword n E d name c kc = Some (Inr (r, c1, kc1))
           \<and> (nd_get E kwds name \<noteq> None \<longrightarrow> r = nd_get E kwds name)
           \<and> (nd_get E kwds name = None \<longrightarrow>
                (\<forall>ws w rest. name = ws @ w @ rest \<and> (\<forall>ch\<in>set ws. is_space ch)
                     \<and> map ascii_lower w \<in> set bdd_words \<longrightarrow>
                   r = (if takeWhile (\<lambda>ch. ch \<noteq> CHR 0x0A) rest = [] then None
                        else nd_get E kwds (takeWhile (\<lambda>ch. ch \<noteq> CHR 0x0A) rest)))
              \<and> (\<not> (\<exists>ws w rest. name = ws @ w @ rest \<and> (\<forall>ch\<in>set ws. is_space ch)
                        \<and> map ascii_lower w \<in> set bdd_words) \<longrightarrow> r = None))))
   \<and> find_keyword (Suc 0) (example_ext [] []) login_suite ''Given Login'' new_resource_cache
         Map.empty =
       Some (Inr (Some login_keyword, new_resource_cache,
                  [''/s/login.txt'' \<mapsto> [''login'' \<mapsto> login_keyword]]))
   \<and> find_keyword (Suc 0) (example_ext [] []) login_suite ''given login'' new_resource_cache
         Map.empty =
       Some (Inr (Some login_keyword, new_resource_cache,
                  [''/s/login.txt'' \<mapsto> [''login'' \<mapsto> login_keyword]]))
   \<and> find_keyword (Suc 0) (example_ext [] []) login_suite ''Logon'' new_resource_cache Map.empty =
       Some (Inr (None, new_resource_cache,
                  [''/s/login.txt'' \<mapsto> [''login'' \<mapsto> login_keyword]]))"
proof (intro conjI impI)
  show "find_keyword n E d [] c kc = Some (Inr (None, c, kc))"
    by (simp add: find_keyword_def)
next
  assume a: "name \<noteq> [] \<and> get_keywords_dict_cached n E d c kc = Some (Inr (kwds, c1, kc1))"
  then have "find_keyword n E d name c kc = Some (Inr (lookup_keyword E kwds name, c1, kc1))"
    by (simp add: find_keyword_def)
  then show "\<exists>r. find_keyword n E d name c kc = Some (Inr (r, c1, kc1))
           \<and> (nd_get E kwds name \<noteq> None \<longrightarrow> r = nd_get E kwds name)
           \<and> (nd_get E kwds name = None \<longrightarrow>
                (\<forall>ws w rest. name = ws @ w @ rest \<and> (\<forall>ch\<in>set ws. is_space ch)
                     \<and> map ascii_lower w \<in> set bdd_words \<longrightarrow>
                   r = (if takeWhile (\<lambda>ch. ch \<noteq> CHR 0x0A) rest = [] then None
                        else nd_get E kwds (takeWhile (\<lambda>ch. ch \<noteq> CHR 0x0A) rest)))
              \<and> (\<not> (\<exists>ws w rest. name = ws @ w @ rest \<and> (\<forall>ch\<in>set ws. is_space ch)
                        \<and> map ascii_lower w \<in> set bdd_words) \<longrightarrow> r = None))"
    using lookup_keyword_hit [of E kwds name] lookup_keyword_bdd [of E kwds name]
      lookup_keyword_no_match [of E kwds name]
    by (intro exI [of _ "lookup_keyword E kwds name"]) blast
qed (simp_all add: login_found login_keyword_def)

theorem find_keyword_lookup_witness:
  "''Given Login'' \<noteq> []
   \<and> get_keywords_dict_cached (Suc 0) (example_ext [] []) login_suite new_resource_cache Map.empty =
       Some (Inr ([''login'' \<mapsto> login_keyword], new_resource_cache,
                  [''/s/login.txt'' \<mapsto> [''login'' \<mapsto> login_keyword]]))
   \<and> nd_get (example_ext [] []) [''login'' \<mapsto> login_keyword] ''Given Login'' = None
   \<and> ''Given Login'' = [] @ ''Given'' @ '' Login''
   \<and> map ascii_lower ''Given'' \<in> set bdd_words
   \<and> find_keyword (Suc 0) (example_ext [] []) login_suite ''Given Login'' new_resource_cache
         Map.empty =
       Some (Inr (Some login_keyword, new_resource_cache,
                  [''/s/login.txt'' \<mapsto> [''login'' \<mapsto> login_keyword]]))"
proof -
  have w: "map ascii_lower ''Given'' \<in> set bdd_words" by code_simp
  have m: "nd_get (example_ext [] []) [''login'' \<mapsto> login_keyword] ''Given Login'' = None"
    by (simp add: nd_get_def example_ext_simps norm_login)
  show ?thesis
    using w m login_dict
      find_keyword_lookup [of "Suc 0" "example_ext [] []" login_suite new_resource_cache
        Map.empty "''Given Login''" "[''login'' \<mapsto> login_keyword]" new_resource_cache
        "[''/s/login.txt'' \<mapsto> [''login'' \<mapsto> login_keyword]]"]
    by (simp add: login_keyword_def)
qed










lemma growsI:
  "(\<And>x c' ctx'. out = Inr (x, c', ctx') \<Longrightarrow>
      resource_keys E c' \<subseteq> U \<and> ctx_parsed ctx \<subseteq> ctx_parsed ctx') \<Longrightarrow> grows U E ctx out"
  by (simp add: grows_def)

lemma grows_Inl [simp]: "grows U E ctx (Inl e)"
  by (simp add: grows_def)

lemma grows_Inr [simp]:
  "grows U E ctx (Inr (x, c', ctx')) \<longleftrightarrow>
     resource_keys E c' \<subseteq> U \<and> ctx_parsed ctx \<subseteq> ctx_parsed ctx'"
  by (simp add: grows_def)



















lemma returned_simps [simp]:
  "returned None = None"
  "returned (Some (Inl e)) = None"
  "returned (Some (Inr (x, c, ctx))) = Some x"
  by (simp_all add: returned_def)




























end
